theory Spec2Isabelle
  imports Main "HOL-Library.AList" "HOL-Library.Sublist"
begin

section \<open>Common types\<close>

text \<open>
  Errors are values. \<open>TypeError\<close> is the JavaScript runtime's own error (a property read
  on \<open>undefined\<close>), \<open>FirebaseError\<close> is the error class of the tool, and \<open>ExternalError\<close>
  stands for whatever an external collaborator (portfinder, node-fetch, the child
  process, the discovery module) rejects or throws with.
\<close>

datatype error = TypeError string | FirebaseError string | ExternalError string

text \<open>
  The way an awaited promise ends: it resolves with a value, it rejects with an error, or
  it never settles.
\<close>

datatype 'a outcome = Resolves 'a | Rejects error | Never

text \<open>
  A numeric identifier is a string of decimal digits without a leading zero (the string
  \<open>0\<close> apart); its value is the number it writes.
\<close>

definition digit_value :: "char \<Rightarrow> nat option" where
  "digit_value c = map_of (zip ''0123456789'' [0 ..< 10]) c"

fun numeric_value :: "nat \<Rightarrow> string \<Rightarrow> nat option" where
  "numeric_value acc [] = Some acc"
| "numeric_value acc (c # cs) =
     (case digit_value c of None \<Rightarrow> None | Some d \<Rightarrow> numeric_value (10 * acc + d) cs)"

definition numeric_identifier :: "string \<Rightarrow> nat option" where
  "numeric_identifier s =
     (if s = [] \<or> (hd s = CHR ''0'' \<and> length s > 1) then None else numeric_value 0 s)"

section \<open>deploy/functions/ensure.ts: ensureSecretAccess\<close>

text \<open>
  \<open>backend.allEndpoints(b)\<close> is taken as the list of endpoints of the backend. Of an
  endpoint the code reads \<open>serviceAccountEmail\<close>, \<open>project\<close> and the \<open>secret\<close> field of each
  entry of \<open>secretEnvironmentVariables\<close>.
\<close>

record secretEnvVar =
  key :: string
  secret :: string

record endpoint =
  serviceAccountEmail :: "string option"
  project :: string
  secretEnvironmentVariables :: "secretEnvVar list option"

type_synonym backend = "endpoint list"

text \<open>
  A \<open>Record<string, Set<string>>\<close> built from the literal \<open>{}\<close> is a plain object. Its own
  properties are an association list in insertion order, whose values are
  duplicate-free lists in insertion order (a JavaScript \<open>Set\<close> iterates in insertion
  order); \<open>AList.update\<close> is the assignment \<open>obj[k] = v\<close>: it replaces the value in place or
  appends the new key. Behind the own properties stand those of \<open>Object.prototype\<close>: a
  read \<open>obj[k]\<close> of a key that is not an own property gives the inherited value (a
  function, or the prototype itself for \<open>__proto__\<close>) when \<open>k\<close> is one of its names, and
  \<open>undefined\<close> otherwise.
\<close>

type_synonym secrets_map = "(string \<times> string list) list"

definition object_prototype_keys :: "string list" where
  "object_prototype_keys =
     [''constructor'', ''__defineGetter__'', ''__defineSetter__'', ''hasOwnProperty'',
      ''__lookupGetter__'', ''__lookupSetter__'', ''isPrototypeOf'', ''propertyIsEnumerable'',
      ''toString'', ''valueOf'', ''__proto__'', ''toLocaleString'']"

datatype 'v property = Own 'v | Inherited | Undefined

definition get_property :: "(string \<times> 'v) list \<Rightarrow> string \<Rightarrow> 'v property" where
  "get_property obj k =
     (case map_of obj k of
        Some v \<Rightarrow> Own v
      | None \<Rightarrow> if k \<in> set object_prototype_keys then Inherited else Undefined)"

text \<open>
  \<open>Object.entries(obj)\<close>: the own properties whose key is an array index (a canonical
  decimal numeral below \<open>2^32 - 1\<close>) in ascending numeric order, then the others in
  insertion order.
\<close>

definition array_index :: "string \<Rightarrow> nat option" where
  "array_index k =
     (case numeric_identifier k of
        None \<Rightarrow> None
      | Some n \<Rightarrow> if n < 4294967295 then Some n else None)"

definition Object_entries :: "(string \<times> 'v) list \<Rightarrow> (string \<times> 'v) list" where
  "Object_entries obj =
     sort_key (\<lambda>p. the (array_index (fst p))) (filter (\<lambda>p. array_index (fst p) \<noteq> None) obj)
     @ filter (\<lambda>p. array_index (fst p) = None) obj"

definition set_add :: "string \<Rightarrow> string list \<Rightarrow> string list" where
  "set_add x s = (if x \<in> set s then s else s @ [x])"

definition set_delete :: "string \<Rightarrow> string list \<Rightarrow> string list" where
  "set_delete x s = removeAll x s"

text \<open>\<open>e.serviceAccountEmail || defaultServiceAccount(e.project)\<close>: the empty string is falsy.\<close>

definition endpoint_sa :: "(string \<Rightarrow> string) \<Rightarrow> endpoint \<Rightarrow> string" where
  "endpoint_sa defaultServiceAccount e =
     (case serviceAccountEmail e of
        None \<Rightarrow> defaultServiceAccount (project e)
      | Some a \<Rightarrow> if a = [] then defaultServiceAccount (project e) else a)"

text \<open>\<open>e.secretEnvironmentVariables! || []\<close>\<close>

definition endpoint_secrets :: "endpoint \<Rightarrow> secretEnvVar list" where
  "endpoint_secrets e = (case secretEnvironmentVariables e of None \<Rightarrow> [] | Some l \<Rightarrow> l)"

text \<open>
  The body of the inner loop of \<open>secretsToServiceAccounts\<close>. In
  \<open>secretsToSa[s.secret] || new Set()\<close> an own value is a \<open>Set\<close> and an inherited value is
  a function or an object: both are truthy, so only \<open>undefined\<close> gives the new \<open>Set\<close>. On an
  inherited value \<open>serviceAccounts.add\<close> is undefined and the call of it throws.
\<close>

definition add_is_not_a_function :: error where
  "add_is_not_a_function = TypeError ''serviceAccounts.add is not a function''"

definition add_secret :: "string \<Rightarrow> secretEnvVar \<Rightarrow> secrets_map \<Rightarrow> error + secrets_map" where
  "add_secret sa s secretsToSa =
     (case get_property secretsToSa (secret s) of
        Inherited \<Rightarrow> Inl add_is_not_a_function
      | Undefined \<Rightarrow> Inr (AList.update (secret s) (set_add sa []) secretsToSa)
      | Own serviceAccounts \<Rightarrow>
          Inr (AList.update (secret s) (set_add sa serviceAccounts) secretsToSa))"

fun add_secrets :: "string \<Rightarrow> secretEnvVar list \<Rightarrow> secrets_map \<Rightarrow> error + secrets_map" where
  "add_secrets sa [] secretsToSa = Inr secretsToSa"
| "add_secrets sa (s # rest) secretsToSa =
     (case add_secret sa s secretsToSa of
        Inl e \<Rightarrow> Inl e
      | Inr m \<Rightarrow> add_secrets sa rest m)"

fun add_endpoints :: "(string \<Rightarrow> string) \<Rightarrow> endpoint list \<Rightarrow> secrets_map \<Rightarrow> error + secrets_map" where
  "add_endpoints defaultServiceAccount [] secretsToSa = Inr secretsToSa"
| "add_endpoints defaultServiceAccount (e # rest) secretsToSa =
     (case add_secrets (endpoint_sa defaultServiceAccount e) (endpoint_secrets e) secretsToSa of
        Inl err \<Rightarrow> Inl err
      | Inr m \<Rightarrow> add_endpoints defaultServiceAccount rest m)"

definition secretsToServiceAccounts :: "(string \<Rightarrow> string) \<Rightarrow> backend \<Rightarrow> error + secrets_map" where
  "secretsToServiceAccounts defaultServiceAccount b = add_endpoints defaultServiceAccount b []"

text \<open>
  The loop that removes the pairs that already exist. \<open>wantSecrets\<close> is never undefined,
  so \<open>wantSecrets?.[secret]\<close> is the plain read; when it gives \<open>undefined\<close> the read of
  \<open>.has\<close> on it throws a TypeError, and on an inherited value \<open>.has\<close> is undefined and the
  call of it throws.
\<close>

definition has_on_undefined :: error where
  "has_on_undefined = TypeError ''Cannot read properties of undefined (reading 'has')''"

definition has_is_not_a_function :: error where
  "has_is_not_a_function = TypeError ''wantSecrets?.[secret].has is not a function''"

fun remove_existing_sas :: "string \<Rightarrow> string list \<Rightarrow> secrets_map \<Rightarrow> error + secrets_map" where
  "remove_existing_sas sec [] wantSecrets = Inr wantSecrets"
| "remove_existing_sas sec (serviceAccount # rest) wantSecrets =
     (case get_property wantSecrets sec of
        Undefined \<Rightarrow> Inl has_on_undefined
      | Inherited \<Rightarrow> Inl has_is_not_a_function
      | Own s \<Rightarrow>
          if serviceAccount \<in> set s then
            (let s' = set_delete serviceAccount s;
                 w' = AList.update sec s' wantSecrets
             in remove_existing_sas sec rest
                  (if length s' = 0 then AList.delete sec w' else w'))
          else remove_existing_sas sec rest wantSecrets)"

fun remove_existing :: "secrets_map \<Rightarrow> secrets_map \<Rightarrow> error + secrets_map" where
  "remove_existing [] wantSecrets = Inr wantSecrets"
| "remove_existing ((sec, serviceAccounts) # rest) wantSecrets =
     (case remove_existing_sas sec serviceAccounts wantSecrets of
        Inl e \<Rightarrow> Inl e
      | Inr w' \<Rightarrow> remove_existing rest w')"

text \<open>
  An IAM update: one call of \<open>ensureAccess(secret, serviceAccounts)\<close>, which grants
  \<open>roles/secretmanager.secretAccessor\<close> on the secret through \<open>ensureServiceAgentRole\<close>.
  The result of \<open>ensureSecretAccess\<close> is the error thrown while the two maps are built
  (that of wantBackend first) or by the removal loop, or else the list of the IAM
  updates it issues afterwards (what the IAM service answers is outside the model).
\<close>

record iam_update =
  iam_project :: string
  iam_secret :: string
  iam_members :: "string list"

definition ensureSecretAccess ::
  "(string \<Rightarrow> string) \<Rightarrow> string \<Rightarrow> backend \<Rightarrow> backend \<Rightarrow> error + iam_update list" where
  "ensureSecretAccess defaultServiceAccount projectId wantBackend haveBackend =
     (case secretsToServiceAccounts defaultServiceAccount wantBackend of
        Inl e \<Rightarrow> Inl e
      | Inr wantSecrets \<Rightarrow>
          (case secretsToServiceAccounts defaultServiceAccount haveBackend of
             Inl e \<Rightarrow> Inl e
           | Inr haveSecrets \<Rightarrow>
               (case remove_existing (Object_entries haveSecrets) wantSecrets of
                  Inl e \<Rightarrow> Inl e
                | Inr w' \<Rightarrow>
                    Inr (map (\<lambda>(sec, serviceAccounts).
                                \<lparr>iam_project = projectId, iam_secret = sec,
                                 iam_members = serviceAccounts\<rparr>) (Object_entries w')))))"

text \<open>The secrets a backend binds: those named by some endpoint of it.\<close>

definition backend_secrets :: "backend \<Rightarrow> string set" where
  "backend_secrets b = (\<Union>e \<in> set b. secret ` set (endpoint_secrets e))"

text \<open>None of the names is a property of \<open>Object.prototype\<close>.\<close>

definition no_prototype_key :: "string set \<Rightarrow> bool" where
  "no_prototype_key ks = (ks \<inter> set object_prototype_keys = {})"

section \<open>Logging, processes and the environment of a child\<close>

text \<open>
  What a delegate does to the outside is recorded as a list of events, in the order the
  calls are made.
\<close>

datatype signal = SIGTERM | SIGKILL

datatype event =
    GetFunctionsSDKVersion string
  | LoggerDebug string
  | LogLabeledWarning string string
  | ParseTriggersDiscoverBuild
  | DetectFromYaml string
  | GetPort
  | Spawn string "string list"
  | DetectFromPort nat
  | InvokeTeardown
  | Fetch string
  | SetTimeout nat
  | ChildKill string signal
  | UncaughtError error

text \<open>\<open>n.toString()\<close> of a non-negative integer, and \<open>`${code}`\<close> of an integer.\<close>

definition digit_char :: "nat \<Rightarrow> char" where
  "digit_char d = char_of (48 + d)"

function string_of_nat :: "nat \<Rightarrow> string" where
  "string_of_nat n =
     (if n < 10 then [digit_char n] else string_of_nat (n div 10) @ [digit_char (n mod 10)])"
  by pat_completeness auto
termination
  by (relation "measure id") auto

declare string_of_nat.simps [simp del]

definition string_of_int :: "int \<Rightarrow> string" where
  "string_of_int i = (if i < 0 then CHR ''-'' # string_of_nat (nat (- i)) else string_of_nat (nat i))"

text \<open>
  \<open>path.join\<close> on segments that need no normalisation (no empty segment, no \<open>.\<close> or
  \<open>..\<close>, no trailing separator): the segments joined by the separator.
\<close>

fun path_join :: "string list \<Rightarrow> string" where
  "path_join [] = ''.''"
| "path_join [p] = p"
| "path_join (p # q # ps) = p @ ''/'' @ path_join (q # ps)"

text \<open>
  An environment maps a variable name to its value. The options given to \<open>spawn\<close>: \<open>env\<close>
  may be left out, and Node then gives the child the environment of the parent
  (\<open>options.env\<close> defaults to \<open>process.env\<close>); that default is \<open>child_environment\<close>.
\<close>

type_synonym env = "string \<rightharpoonup> string"

record spawn_options =
  opt_env :: "env option"
  opt_cwd :: string
  opt_stdio :: "string list"

record spawn_call =
  command :: string
  args :: "string list"
  options :: spawn_options


text \<open>
  What the tool sees of a child process, as Node documents \<open>ChildProcess\<close>: \<open>killed\<close> says
  that \<open>kill()\<close> delivered a signal (not that the process ended), \<open>exitCode\<close> is the code the
  process exited with and stays \<open>null\<close> while it runs and also when a signal ended it.
  \<open>running\<close> is the fact behind them: the process is alive and its \<open>exit\<close> event has not
  been emitted yet. Once it is emitted, no listener registered later ever hears one.
\<close>

record child_process =
  running :: bool
  killed :: bool
  exitCode :: "int option"

text \<open>
  \<open>proc.kill(signal)\<close>: a running process receives the signal and \<open>killed\<close> becomes true;
  for a process that is gone the call returns false and changes nothing. The call itself
  is recorded either way, under the name of the process.
\<close>

definition kill :: "string \<Rightarrow> signal \<Rightarrow> child_process \<Rightarrow> child_process \<times> event list" where
  "kill name sig proc =
     (if running proc then proc\<lparr>killed := True\<rparr> else proc, [ChildKill name sig])"

section \<open>deploy/functions/runtimes/node/index.ts\<close>

definition MIN_FUNCTIONS_SDK_VERSION :: string where
  "MIN_FUNCTIONS_SDK_VERSION = ''3.20.0''"

text \<open>The class \<open>Delegate\<close>; \<open>sdkVersion_field\<close> is the field \<open>_sdkVersion\<close>, \<open>None\<close> for undefined.\<close>

record node_delegate =
  projectId :: string
  projectDir :: string
  sourceDir :: string
  runtime :: string
  sdkVersion_field :: "string option"

definition Delegate :: "string \<Rightarrow> string \<Rightarrow> string \<Rightarrow> string \<Rightarrow> node_delegate" where
  "Delegate pid pdir sdir rt =
     \<lparr>projectId = pid, projectDir = pdir, sourceDir = sdir, runtime = rt,
      sdkVersion_field = None\<rparr>"

text \<open>
  What the teardown returned by \<open>serve\<close> meets when it runs: how the quit request ends,
  whether the served process exits by itself once asked to quit (and with which code),
  and the \<open>error\<close> event the child emits before it exits, if any.
\<close>

record teardown_world =
  quit_request :: "unit outcome"
  exits_on_quit :: "int option"
  error_event :: "error option"

text \<open>
  Everything outside the delegate that \<open>discoverBuild\<close> and \<open>serve\<close> consult. The functions
  of other modules and packages are parameters: \<open>getFunctionsSDKVersion\<close> (its result at
  the n-th call, \<open>None\<close> for undefined), \<open>semver.valid\<close> (as the truth of its result) and
  \<open>semver.lt\<close>, \<open>parseTriggers.discoverBuild\<close>, \<open>discovery.detectFromYaml\<close> and
  \<open>detectFromPort\<close>, portfinder's \<open>getPort\<close>, \<open>require.resolve\<close>, \<open>JSON.stringify\<close>,
  \<open>process.env\<close>, and the state of the spawned child when the teardown is invoked.
  \<open>spawn_error\<close> is the \<open>error\<close> event of a spawn that fails (the binary is missing or
  cannot be executed): \<open>spawn\<close> does not throw then, the child emits \<open>error\<close> on the next
  tick. \<open>'b\<close> is the type of a build.
\<close>

record 'b node_world = teardown_world +
  getFunctionsSDKVersion :: "nat \<Rightarrow> string option"
  semver_valid :: "string \<Rightarrow> bool"
  semver_lt :: "string \<Rightarrow> string \<Rightarrow> bool"
  parseTriggers_discoverBuild :: "'b outcome"
  detectFromYaml :: "'b option outcome"
  getPort :: "nat outcome"
  require_resolve :: "error + string"
  detectFromPort :: "nat \<Rightarrow> 'b outcome"
  JSON_stringify :: "(string \<times> string) list \<Rightarrow> string"
  process_env :: env
  spawn_error :: "error option"
  child_at_teardown :: child_process

type_synonym node_state = "node_delegate \<times> event list"

definition log :: "event \<Rightarrow> 'd \<times> event list \<Rightarrow> 'd \<times> event list" where
  "log e s = (fst s, snd s @ [e])"

definition lookups :: "event list \<Rightarrow> nat" where
  "lookups tr = length (filter (\<lambda>e. case e of GetFunctionsSDKVersion _ \<Rightarrow> True | _ \<Rightarrow> False) tr)"

text \<open>
  The getter \<open>sdkVersion\<close>: when the field is undefined it is set to
  \<open>versioning.getFunctionsSDKVersion(this.sourceDir) || ""\<close>; the field is returned.
\<close>

definition sdkVersion :: "('b, 'z) node_world_scheme \<Rightarrow> node_state \<Rightarrow> string \<times> node_state" where
  "sdkVersion w s =
     (case sdkVersion_field (fst s) of
        None \<Rightarrow>
          (let r = getFunctionsSDKVersion w (lookups (snd s));
               v = (case r of None \<Rightarrow> '''' | Some x \<Rightarrow> if x = [] then '''' else x)
           in (v, ((fst s)\<lparr>sdkVersion_field := Some v\<rparr>,
                   snd s @ [GetFunctionsSDKVersion (sourceDir (fst s))])))
      | Some v \<Rightarrow> (v, s))"

text \<open>\<open>n\<close> reads of \<open>sdkVersion\<close> in sequence, with the values read.\<close>

fun sdkVersion_reads ::
  "nat \<Rightarrow> ('b, 'z) node_world_scheme \<Rightarrow> node_state \<Rightarrow> string list \<times> node_state" where
  "sdkVersion_reads 0 w s = ([], s)"
| "sdkVersion_reads (Suc n) w s =
     (let (v, s1) = sdkVersion w s;
          (vs, s2) = sdkVersion_reads n w s1
      in (v # vs, s2))"

text \<open>\<open>s.lastIndexOf(t)\<close>: the last index at which \<open>t\<close> occurs in \<open>s\<close>, or -1.\<close>

definition lastIndexOf :: "string \<Rightarrow> string \<Rightarrow> int" where
  "lastIndexOf s t =
     (case filter (\<lambda>i. prefix t (drop i s)) (rev [0 ..< Suc (length s)]) of
        [] \<Rightarrow> - 1
      | i # _ \<Rightarrow> int i)"

text \<open>
  The environment \<open>serve\<close> builds: the spread of \<open>envs\<close>, then the five fixed keys (an
  undefined \<open>process.env\<close> value leaves the key undefined, and \<open>spawn\<close> passes no such
  key), then \<open>CLOUD_RUNTIME_CONFIG\<close> when \<open>Object.keys(config || {})\<close> is not empty. A
  config is the list of its keys with their values; \<open>None\<close> is an undefined config.
\<close>

definition serve_env ::
  "nat \<Rightarrow> (string \<times> string) list option \<Rightarrow> env \<Rightarrow> ('b, 'z) node_world_scheme \<Rightarrow> env" where
  "serve_env port config envs w =
     (let e = envs
            (''PORT'' \<mapsto> string_of_nat port,
             ''FUNCTIONS_CONTROL_API'' \<mapsto> ''true'',
             ''HOME'' := process_env w ''HOME'',
             ''PATH'' := process_env w ''PATH'',
             ''NODE_ENV'' := process_env w ''NODE_ENV'')
      in if length (map fst (case config of None \<Rightarrow> [] | Some c \<Rightarrow> c)) \<noteq> 0
         then e(''CLOUD_RUNTIME_CONFIG'' \<mapsto> JSON_stringify w (the config))
         else e)"

text \<open>
  \<open>serve\<close> up to the value it returns: \<open>require.resolve\<close> may throw; otherwise the binary
  of the SDK is spawned, with well-formed arguments, and the result is the call of
  \<open>spawn\<close>. \<open>serve\<close> registers a listener for the output of the child and none for its
  \<open>error\<close> event: what a failed spawn leads to is in \<open>live_discovery\<close>, where the event
  arrives.
\<close>

definition serve ::
  "nat \<Rightarrow> (string \<times> string) list option \<Rightarrow> env \<Rightarrow> ('b, 'z) node_world_scheme \<Rightarrow> node_state
     \<Rightarrow> (error + spawn_call) \<times> node_state" where
  "serve port config envs w s =
     (let e = serve_env port config envs w in
      case require_resolve w of
        Inl err \<Rightarrow> (Inl err, s)
      | Inr sdkPath \<Rightarrow>
          (let binPath = take (nat (lastIndexOf sdkPath ''node_modules'' + 12)) sdkPath;
               call = \<lparr>command = path_join [binPath, ''.bin'', ''firebase-functions''],
                       args = [sourceDir (fst s)],
                       options = \<lparr>opt_env = Some e, opt_cwd = sourceDir (fst s),
                                  opt_stdio = [''ignore'', ''pipe'', ''inherit'']\<rparr>\<rparr>
           in (Inr call, log (Spawn (command call) (args call)) s)))"

text \<open>
  The teardown \<open>serve\<close> returns, run on the child as it is when the teardown is invoked.
  It registers \<open>once("exit", resolve)\<close> and \<open>once("error", reject)\<close>, awaits the quit
  request (a rejection of \<open>fetch\<close> rejects the teardown there), sets the timer and
  returns the promise of the two listeners. The timer's callback runs ten seconds later
  whatever happened, and sends SIGKILL unless \<open>killed\<close> is set. The promise settles at the
  first event the child emits after the listeners were registered: it rejects on an
  \<open>error\<close>, and resolves when the child exits, by itself on the quit request or from the
  SIGKILL of the timer. A child that is already gone emits nothing more, and the promise
  never settles; so it is for a running child that ignores the request and was signalled
  before, which the timer leaves alone.
\<close>

definition quit_url :: "nat \<Rightarrow> string" where
  "quit_url port = ''http://localhost:'' @ string_of_nat port @ ''/__/quitquitquit''"

definition timer_kill :: "child_process \<Rightarrow> child_process \<times> event list" where
  "timer_kill proc = (if \<not> killed proc then kill ''firebase-functions'' SIGKILL proc else (proc, []))"

definition settle_exit :: "error option \<Rightarrow> unit outcome" where
  "settle_exit err = (case err of Some e \<Rightarrow> Rejects e | None \<Rightarrow> Resolves ())"

definition serve_teardown ::
  "nat \<Rightarrow> 'z teardown_world_scheme \<Rightarrow> child_process \<Rightarrow> unit outcome \<times> child_process \<times> event list" where
  "serve_teardown port tw proc =
     (case quit_request tw of
        Rejects e \<Rightarrow> (Rejects e, proc, [Fetch (quit_url port)])
      | Never \<Rightarrow> (Never, proc, [Fetch (quit_url port)])
      | Resolves _ \<Rightarrow>
          (let before = [Fetch (quit_url port), SetTimeout 10000] in
           if \<not> running proc then
             (Never, fst (timer_kill proc), before @ snd (timer_kill proc))
           else
             (case exits_on_quit tw of
                Some code \<Rightarrow>
                  (let exited = proc\<lparr>running := False, exitCode := Some code\<rparr>
                   in (settle_exit (error_event tw), fst (timer_kill exited),
                       before @ snd (timer_kill exited)))
              | None \<Rightarrow>
                  if \<not> killed proc then
                    (settle_exit (error_event tw), (fst (timer_kill proc))\<lparr>running := False\<rparr>,
                     before @ snd (timer_kill proc))
                  else
                    ((case error_event tw of Some e \<Rightarrow> Rejects e | None \<Rightarrow> Never),
                     proc, before))))"

text \<open>\<open>watch\<close> returns a teardown that does nothing: \<open>() => Promise.resolve()\<close>.\<close>

definition watch_teardown :: "unit outcome \<times> event list" where
  "watch_teardown = (Resolves (), [])"

text \<open>\<open>try { discovered = await probe } finally { await kill() }\<close>\<close>

definition finally_kill :: "'b outcome \<Rightarrow> unit outcome \<Rightarrow> 'b outcome" where
  "finally_kill probe k =
     (case k of Resolves _ \<Rightarrow> probe | Rejects e \<Rightarrow> Rejects e | Never \<Rightarrow> Never)"

text \<open>
  Live discovery. The continuation of \<open>await this.serve(...)\<close> calls \<open>detectFromPort\<close>
  in the same turn; the \<open>error\<close> event of a failed spawn comes on the next tick, before
  the probe can settle. No listener for \<open>error\<close> is registered until the teardown runs,
  so the event is thrown as an uncaught error and ends the process of the tool: the
  teardown is never invoked and the promise of \<open>discoverBuild\<close> never settles.
\<close>

definition live_discovery ::
  "(string \<times> string) list option \<Rightarrow> env \<Rightarrow> 'b node_world \<Rightarrow> node_state \<Rightarrow> 'b outcome \<times> node_state" where
  "live_discovery config envs w s =
     (let s1 = log GetPort s in
      case getPort w of
        Rejects e \<Rightarrow> (Rejects e, s1)
      | Never \<Rightarrow> (Never, s1)
      | Resolves port \<Rightarrow>
          (case serve port config envs w s1 of
             (Inl e, s2) \<Rightarrow> (Rejects e, s2)
           | (Inr call, s2) \<Rightarrow>
               (let s3 = log (DetectFromPort port) s2 in
                case spawn_error w of
                  Some e \<Rightarrow> (Never, log (UncaughtError e) s3)
                | None \<Rightarrow>
                    (case detectFromPort w port of
                       Never \<Rightarrow> (Never, s3)
                     | Rejects e \<Rightarrow>
                         (let (k, proc, evs) = serve_teardown port w (child_at_teardown w)
                          in (finally_kill (Rejects e) k, (fst s3, snd s3 @ InvokeTeardown # evs)))
                     | Resolves b \<Rightarrow>
                         (let (k, proc, evs) = serve_teardown port w (child_at_teardown w)
                          in (finally_kill (Resolves b) k,
                              (fst s3, snd s3 @ InvokeTeardown # evs)))))))"

text \<open>A string between two apostrophes.\<close>

definition quoted :: "string \<Rightarrow> string" where
  "quoted x = CHR 0x27 # x @ [CHR 0x27]"

definition discoverBuild ::
  "(string \<times> string) list option \<Rightarrow> env \<Rightarrow> 'b node_world \<Rightarrow> node_state \<Rightarrow> 'b outcome \<times> node_state" where
  "discoverBuild config envs w s =
     (let (v1, s1) = sdkVersion w s in
      if \<not> semver_valid w v1 then
        (let (v2, s2) = sdkVersion w s1;
             s3 = log (LoggerDebug (''Could not parse firebase-functions version '' @ quoted v2 @
                         '' into semver. Falling back to parseTriggers.'')) s2
         in (parseTriggers_discoverBuild w, log ParseTriggersDiscoverBuild s3))
      else
        (let (v2, s2) = sdkVersion w s1 in
         if semver_lt w v2 MIN_FUNCTIONS_SDK_VERSION then
           (let (v3, s3) = sdkVersion w s2;
                s4 = log (LogLabeledWarning ''functions''
                           (''You are using an old version of firebase-functions SDK ('' @ v3 @ ''). '' @
                            ''Please update firebase-functions SDK to >='' @ MIN_FUNCTIONS_SDK_VERSION)) s3
            in (parseTriggers_discoverBuild w, log ParseTriggersDiscoverBuild s4))
         else
           (let s3 = log (DetectFromYaml (sourceDir (fst s2))) s2 in
            case detectFromYaml w of
              Rejects e \<Rightarrow> (Rejects e, s3)
            | Never \<Rightarrow> (Never, s3)
            | Resolves (Some b) \<Rightarrow> (Resolves b, s3)
            | Resolves None \<Rightarrow> live_discovery config envs w s3)))"

section \<open>deploy/functions/runtimes/dart/index.ts\<close>

text \<open>
  The class \<open>Delegate\<close> of the Dart runtime; \<open>bin_field\<close> is the field \<open>_bin\<close>. (The copy of
  this class that follows the Node delegate in the sources has the same \<open>discoverBuild\<close>
  and the \<open>watch\<close> of the Node delegate, whose teardown does nothing.)
\<close>

record dart_delegate =
  dart_projectId :: string
  dart_sourceDir :: string
  dart_runtime :: string
  bin_field :: string

text \<open>The getter \<open>bin\<close>: an empty field is set to \<open>dart\<close>; the field is returned.\<close>

definition bin :: "dart_delegate \<Rightarrow> string \<times> dart_delegate" where
  "bin d = (let d1 = (if bin_field d = '''' then d\<lparr>bin_field := ''dart''\<rparr> else d)
            in (bin_field d1, d1))"

text \<open>
  The events a child emits, in order: \<open>exit\<close> with its code (\<open>null\<close> when a signal ended
  the process) or \<open>error\<close>.
\<close>

datatype proc_event = ExitEvent "int option" | ErrorEvent error

text \<open>
  Outside the Dart delegate: \<open>discovery.detectFromYaml\<close> (its result at the n-th call of
  one \<open>discoverBuild\<close>) and the events of the \<open>build_runner\<close> process.
\<close>

record 'b dart_world =
  dart_detectFromYaml :: "nat \<Rightarrow> 'b option outcome"
  build_runner_events :: "proc_event list"

text \<open>
  The promise around the \<open>exit\<close> and \<open>error\<close> listeners of the generator: the first event
  settles it, and it never settles when no event comes.
\<close>

definition build_runner_failed :: "int \<Rightarrow> error" where
  "build_runner_failed code =
     FirebaseError (''build_runner failed with exit code '' @ string_of_int code @
                    ''. Make sure your Dart project is properly configured.'')"

fun wait_for_exit :: "proc_event list \<Rightarrow> unit outcome" where
  "wait_for_exit [] = Never"
| "wait_for_exit (ExitEvent code # _) =
     (if code = Some 0 \<or> code = None then Resolves ()
      else Rejects (build_runner_failed (the code)))"
| "wait_for_exit (ErrorEvent e # _) = Rejects e"

definition yaml_not_found :: "string \<Rightarrow> error" where
  "yaml_not_found yamlPath =
     FirebaseError (''Could not find functions.yaml at '' @ yamlPath @ '' after running build_runner. '' @
                    ''Make sure your Dart project is properly configured with firebase_functions.'')"

definition dart_spawn_build_runner :: "dart_delegate \<Rightarrow> spawn_call" where
  "dart_spawn_build_runner d =
     \<lparr>command = fst (bin d), args = [''run'', ''build_runner'', ''build''],
      options = \<lparr>opt_env = None, opt_cwd = dart_sourceDir d,
                 opt_stdio = [''ignore'', ''pipe'', ''pipe'']\<rparr>\<rparr>"

definition dart_discoverBuild :: "'b dart_world \<Rightarrow> dart_delegate \<Rightarrow> 'b outcome \<times> event list" where
  "dart_discoverBuild w d =
     (let yamlDir = path_join [dart_sourceDir d, ''.dart_tool'', ''firebase''];
          yamlPath = path_join [yamlDir, ''functions.yaml''];
          t1 = [DetectFromYaml yamlDir]
      in case dart_detectFromYaml w 0 of
           Rejects e \<Rightarrow> (Rejects e, t1)
         | Never \<Rightarrow> (Never, t1)
         | Resolves (Some b) \<Rightarrow> (Resolves b, t1)
         | Resolves None \<Rightarrow>
             (let call = dart_spawn_build_runner d;
                  t2 = t1 @ [LoggerDebug ''functions.yaml not found, running build_runner to generate it...'',
                             Spawn (command call) (args call)]
              in case wait_for_exit (build_runner_events w) of
                   Rejects e \<Rightarrow> (Rejects e, t2)
                 | Never \<Rightarrow> (Never, t2)
                 | Resolves _ \<Rightarrow>
                     (let t3 = t2 @ [DetectFromYaml yamlDir] in
                      case dart_detectFromYaml w 1 of
                        Rejects e \<Rightarrow> (Rejects e, t3)
                      | Never \<Rightarrow> (Never, t3)
                      | Resolves (Some b) \<Rightarrow> (Resolves b, t3)
                      | Resolves None \<Rightarrow> (Rejects (yaml_not_found yamlPath), t3))))"


text \<open>
  How a watched process behaves during the teardown: whether SIGTERM ends it within the
  two seconds the teardown waits, and whether, left alone, it ever exits by itself (and
  with which code). SIGKILL always ends a running process.
\<close>

record watched_behaviour =
  dies_on_SIGTERM :: bool
  exits_by_itself :: "int option"

text \<open>
  The steps of the teardown of \<open>watch\<close> on one process: \<open>killProcess\<close>, the state after
  the wait of two seconds, the forced kill, and the promise that waits for the exit.
\<close>

definition killProcess :: "string \<Rightarrow> child_process \<Rightarrow> child_process \<times> event list" where
  "killProcess name proc =
     (if \<not> killed proc \<and> exitCode proc = None then kill name SIGTERM proc else (proc, []))"

definition after_grace :: "watched_behaviour \<Rightarrow> child_process \<Rightarrow> child_process \<Rightarrow> child_process" where
  "after_grace beh before proc =
     (if running before \<and> \<not> killed before \<and> exitCode before = None \<and> dies_on_SIGTERM beh
      then proc\<lparr>running := False\<rparr> else proc)"

definition force_kill :: "string \<Rightarrow> child_process \<Rightarrow> child_process \<times> event list" where
  "force_kill name proc =
     (if \<not> killed proc \<and> exitCode proc = None
      then (let r = kill name SIGKILL proc in ((fst r)\<lparr>running := False\<rparr>, snd r))
      else (proc, []))"

definition wait_exit :: "watched_behaviour \<Rightarrow> child_process \<Rightarrow> unit outcome \<times> child_process" where
  "wait_exit beh proc =
     (if killed proc \<or> exitCode proc \<noteq> None then (Resolves (), proc)
      else if running proc then
        (case exits_by_itself beh of
           Some code \<Rightarrow> (Resolves (), proc\<lparr>running := False, exitCode := Some code\<rparr>)
         | None \<Rightarrow> (Never, proc))
      else (Never, proc))"

text \<open>\<open>Promise.all\<close> of two promises that cannot reject.\<close>

definition both_resolve :: "unit outcome \<Rightarrow> unit outcome \<Rightarrow> unit outcome" where
  "both_resolve a b =
     (case a of
        Resolves _ \<Rightarrow> b
      | Rejects e \<Rightarrow> Rejects e
      | Never \<Rightarrow> (case b of Rejects e \<Rightarrow> Rejects e | _ \<Rightarrow> Never))"

definition dart_watch_teardown ::
  "watched_behaviour \<times> watched_behaviour \<Rightarrow> child_process \<times> child_process
     \<Rightarrow> unit outcome \<times> (child_process \<times> child_process) \<times> event list" where
  "dart_watch_teardown behs procs =
     (let dartRunProcess = fst procs; buildRunnerProcess = snd procs;
          k1 = killProcess ''dart run'' dartRunProcess;
          k2 = killProcess ''build_runner'' buildRunnerProcess;
          p1 = after_grace (fst behs) dartRunProcess (fst k1);
          p2 = after_grace (snd behs) buildRunnerProcess (fst k2);
          f1 = force_kill ''dart run'' p1;
          f2 = force_kill ''build_runner'' p2;
          w1 = wait_exit (fst behs) (fst f1);
          w2 = wait_exit (snd behs) (fst f2)
      in (both_resolve (fst w1) (fst w2), (snd w1, snd w2),
          snd k1 @ snd k2 @ [SetTimeout 2000] @ snd f1 @ snd f2))"

text \<open>The flags on which the teardown of \<open>watch\<close> takes a process to be done with.\<close>

definition settled_flags :: "child_process \<Rightarrow> bool" where
  "settled_flags proc = (killed proc \<or> exitCode proc \<noteq> None)"

section \<open>Observations on a list of events\<close>

text \<open>The outdated-version warnings and the calls of the legacy fallback, in order.\<close>

fun is_gate_event :: "event \<Rightarrow> bool" where
  "is_gate_event (LogLabeledWarning _ _) = True"
| "is_gate_event ParseTriggersDiscoverBuild = True"
| "is_gate_event _ = False"

definition gate_events :: "event list \<Rightarrow> event list" where
  "gate_events tr = filter is_gate_event tr"

definition outdated_warning :: "string \<Rightarrow> event" where
  "outdated_warning v =
     LogLabeledWarning ''functions''
       (''You are using an old version of firebase-functions SDK ('' @ v @ ''). '' @
        ''Please update firebase-functions SDK to >='' @ MIN_FUNCTIONS_SDK_VERSION)"

text \<open>
  The steps of live discovery: acquiring a port, starting a process, probing the port,
  invoking the teardown.
\<close>

fun is_live_event :: "event \<Rightarrow> bool" where
  "is_live_event GetPort = True"
| "is_live_event (Spawn _ _) = True"
| "is_live_event (DetectFromPort _) = True"
| "is_live_event InvokeTeardown = True"
| "is_live_event _ = False"

definition live_events :: "event list \<Rightarrow> event list" where
  "live_events tr = filter is_live_event tr"

text \<open>No step of live discovery comes before the first attempt at static discovery.\<close>

fun static_before_live :: "event list \<Rightarrow> bool" where
  "static_before_live [] = True"
| "static_before_live (DetectFromYaml _ # _) = True"
| "static_before_live (e # es) = (\<not> is_live_event e \<and> static_before_live es)"

text \<open>The attempts to signal a process.\<close>

fun is_kill_attempt :: "event \<Rightarrow> bool" where
  "is_kill_attempt (ChildKill _ _) = True"
| "is_kill_attempt _ = False"

definition kill_attempts :: "event list \<Rightarrow> event list" where
  "kill_attempts tr = filter is_kill_attempt tr"

fun error_message :: "error \<Rightarrow> string" where
  "error_message (TypeError m) = m"
| "error_message (FirebaseError m) = m"
| "error_message (ExternalError m) = m"

text \<open>An error names a path when the path occurs in its message.\<close>

definition names_path :: "error \<Rightarrow> string \<Rightarrow> bool" where
  "names_path e p = sublist p (error_message e)"

definition dart_yamlPath :: "dart_delegate \<Rightarrow> string" where
  "dart_yamlPath d =
     path_join [path_join [dart_sourceDir d, ''.dart_tool'', ''firebase''], ''functions.yaml'']"

section \<open>Semantic versions of the form MAJOR.MINOR.PATCH\<close>

text \<open>
  The package \<open>semver\<close> is a parameter of the model. To run the model on concrete
  versions, this is its reading of the strings of the plain form \<open>MAJOR.MINOR.PATCH\<close>
  (numeric identifiers without leading zeros), compared component by component; every
  other string is rejected here.
\<close>

fun split_dots :: "string \<Rightarrow> string list" where
  "split_dots [] = [[]]"
| "split_dots (c # cs) =
     (if c = CHR ''.'' then [] # split_dots cs
      else (case split_dots cs of [] \<Rightarrow> [[c]] | x # xs \<Rightarrow> (c # x) # xs))"

definition plain_version :: "string \<Rightarrow> (nat \<times> nat \<times> nat) option" where
  "plain_version v =
     (case map numeric_identifier (split_dots v) of
        [Some major, Some minor, Some patch] \<Rightarrow> Some (major, minor, patch)
      | _ \<Rightarrow> None)"

definition plain_valid :: "string \<Rightarrow> bool" where
  "plain_valid v = (plain_version v \<noteq> None)"

definition plain_lt :: "string \<Rightarrow> string \<Rightarrow> bool" where
  "plain_lt a b =
     (case (plain_version a, plain_version b) of
        (Some (a1, a2, a3), Some (b1, b2, b3)) \<Rightarrow>
          a1 < b1 \<or> (a1 = b1 \<and> (a2 < b2 \<or> (a2 = b2 \<and> a3 < b3)))
      | _ \<Rightarrow> False)"

section \<open>Sample inputs\<close>

text \<open>Concrete delegates and worlds, on which the theorems below are instantiated.\<close>

definition sample_child :: child_process where
  "sample_child = \<lparr>running = True, killed = False, exitCode = None\<rparr>"

definition sample_world ::
  "string option \<Rightarrow> string option outcome \<Rightarrow> string outcome \<Rightarrow> string node_world" where
  "sample_world version yaml probe =
     \<lparr>quit_request = Resolves (), exits_on_quit = Some 0, error_event = None,
      getFunctionsSDKVersion = (\<lambda>_. version),
      semver_valid = plain_valid, semver_lt = plain_lt,
      parseTriggers_discoverBuild = Resolves ''build of parseTriggers'',
      detectFromYaml = yaml,
      getPort = Resolves 5001,
      require_resolve = Inr ''/app/node_modules/firebase-functions/lib/index.js'',
      detectFromPort = (\<lambda>_. probe),
      JSON_stringify = (\<lambda>c. ''json of '' @ concat (map fst c)),
      process_env = [''HOME'' \<mapsto> ''/home/u'', ''PATH'' \<mapsto> ''/usr/bin'', ''EDITOR'' \<mapsto> ''vi''],
      spawn_error = None,
      child_at_teardown = sample_child\<rparr>"

definition sample_delegate :: node_delegate where
  "sample_delegate = Delegate ''demo'' ''/app'' ''/app/functions'' ''nodejs16''"

definition sample_dart_delegate :: dart_delegate where
  "sample_dart_delegate =
     \<lparr>dart_projectId = ''demo'', dart_sourceDir = ''/app'', dart_runtime = ''dart3'', bin_field = []\<rparr>"

definition sample_dart_world ::
  "string option outcome \<Rightarrow> string option outcome \<Rightarrow> proc_event list \<Rightarrow> string dart_world" where
  "sample_dart_world first second evs =
     \<lparr>dart_detectFromYaml = (\<lambda>n. if n = 0 then first else second), build_runner_events = evs\<rparr>"

definition exited_child :: child_process where
  "exited_child = \<lparr>running = False, killed = False, exitCode = Some 1\<rparr>"

definition quit_answered :: teardown_world where
  "quit_answered = \<lparr>quit_request = Resolves (), exits_on_quit = Some 0, error_event = None\<rparr>"

definition quit_refused :: teardown_world where
  "quit_refused =
     \<lparr>quit_request = Rejects (ExternalError ''connect ECONNREFUSED 127.0.0.1:5001''),
      exits_on_quit = None, error_event = None\<rparr>"

definition sample_behaviour :: watched_behaviour where
  "sample_behaviour = \<lparr>dies_on_SIGTERM = True, exits_by_itself = None\<rparr>"

definition live_world :: "string outcome \<Rightarrow> string node_world" where
  "live_world probe = sample_world (Some ''3.25.0'') (Resolves None) probe"

section \<open>Properties of ensureSecretAccess\<close>

lemma get_property_own:
  "map_of m k = Some v \<Longrightarrow> get_property m k = Own v"
  by (simp add: get_property_def)

lemma get_property_absent:
  assumes "k \<notin> fst ` set m" and "k \<notin> set object_prototype_keys"
  shows "get_property m k = Undefined"
proof -
  have "map_of m k = None" using assms(1) by (simp add: map_of_eq_None_iff)
  with assms(2) show ?thesis by (simp add: get_property_def)
qed

lemma get_property_inherited:
  assumes "k \<notin> fst ` set m" and "k \<in> set object_prototype_keys"
  shows "get_property m k = Inherited"
proof -
  have "map_of m k = None" using assms(1) by (simp add: map_of_eq_None_iff)
  with assms(2) show ?thesis by (simp add: get_property_def)
qed

lemma set_add_nonempty: "set_add sa x \<noteq> []"
  by (cases x) (simp_all add: set_add_def)

lemma update_set_subset: "set (AList.update k v m) \<subseteq> insert (k, v) (set m)"
  by (induction m) auto

lemma update_nonempty_values:
  assumes "\<forall>p \<in> set m. snd p \<noteq> []" and "v \<noteq> []"
  shows "\<forall>p \<in> set (AList.update k v m). snd p \<noteq> []"
proof (rule ballI)
  fix p assume "p \<in> set (AList.update k v m)"
  with update_set_subset[of k v m] have "p \<in> insert (k, v) (set m)" by (rule subsetD)
  then have "p = (k, v) \<or> p \<in> set m" by simp
  then show "snd p \<noteq> []"
  proof
    assume "p = (k, v)" with assms(2) show ?thesis by simp
  next
    assume "p \<in> set m" with assms(1) show ?thesis by (rule bspec)
  qed
qed

lemma add_secret_ok:
  assumes "secret s \<notin> set object_prototype_keys"
  shows "\<exists>m'. add_secret sa s m = Inr m' \<and> fst ` set m' = insert (secret s) (fst ` set m)
           \<and> ((\<forall>p \<in> set m. snd p \<noteq> []) \<longrightarrow> (\<forall>p \<in> set m'. snd p \<noteq> []))"
proof (cases "map_of m (secret s)")
  case None
  then have "add_secret sa s m = Inr (AList.update (secret s) (set_add sa []) m)"
    using assms by (simp add: add_secret_def get_property_def)
  then show ?thesis
    using update_nonempty_values[OF _ set_add_nonempty, of m "secret s" sa "[]"]
    by (simp add: dom_update)
next
  case (Some x)
  then have "add_secret sa s m = Inr (AList.update (secret s) (set_add sa x) m)"
    by (simp add: add_secret_def get_property_def)
  then show ?thesis
    using update_nonempty_values[OF _ set_add_nonempty, of m "secret s" sa x]
    by (simp add: dom_update)
qed

lemma add_secret_throws:
  assumes "secret s \<in> set object_prototype_keys" and "no_prototype_key (fst ` set m)"
  shows "add_secret sa s m = Inl add_is_not_a_function"
proof -
  have "secret s \<notin> fst ` set m"
    using assms unfolding no_prototype_key_def by (rule_tac notI) (drule (1) IntI, simp)
  then show ?thesis
    using assms(1) by (simp add: add_secret_def get_property_inherited)
qed


lemma no_prototype_key_insert:
  "no_prototype_key (insert k ks) \<longleftrightarrow> k \<notin> set object_prototype_keys \<and> no_prototype_key ks"
  by (simp add: no_prototype_key_def)

lemma no_prototype_key_Un:
  "no_prototype_key (a \<union> b) \<longleftrightarrow> no_prototype_key a \<and> no_prototype_key b"
  by (simp add: no_prototype_key_def Int_Un_distrib2)

lemma add_secrets_ok:
  assumes "no_prototype_key (secret ` set ss)"
  shows "\<exists>m'. add_secrets sa ss m = Inr m' \<and> fst ` set m' = secret ` set ss \<union> fst ` set m
           \<and> ((\<forall>p \<in> set m. snd p \<noteq> []) \<longrightarrow> (\<forall>p \<in> set m'. snd p \<noteq> []))"
  using assms
proof (induction ss arbitrary: m)
  case Nil
  then show ?case by simp
next
  case (Cons s ss)
  from Cons.prems have s: "secret s \<notin> set object_prototype_keys"
    and ss: "no_prototype_key (secret ` set ss)"
    by (simp_all add: no_prototype_key_insert)
  from add_secret_ok[OF s, of sa m] obtain m1 where
    m1: "add_secret sa s m = Inr m1" "fst ` set m1 = insert (secret s) (fst ` set m)"
      "(\<forall>p \<in> set m. snd p \<noteq> []) \<longrightarrow> (\<forall>p \<in> set m1. snd p \<noteq> [])"
    by auto
  from Cons.IH[OF ss, of m1] obtain m2 where
    m2: "add_secrets sa ss m1 = Inr m2" "fst ` set m2 = secret ` set ss \<union> fst ` set m1"
      "(\<forall>p \<in> set m1. snd p \<noteq> []) \<longrightarrow> (\<forall>p \<in> set m2. snd p \<noteq> [])"
    by auto
  have "add_secrets sa (s # ss) m = Inr m2" using m1(1) m2(1) by simp
  moreover have "fst ` set m2 = secret ` set (s # ss) \<union> fst ` set m"
    unfolding m2(2) m1(2) by simp
  moreover have "(\<forall>p \<in> set m. snd p \<noteq> []) \<longrightarrow> (\<forall>p \<in> set m2. snd p \<noteq> [])"
    using m1(3) m2(3) by simp
  ultimately show ?case by (intro exI[of _ m2] conjI)
qed

lemma add_secrets_throws:
  assumes "\<not> no_prototype_key (secret ` set ss)" and "no_prototype_key (fst ` set m)"
  shows "add_secrets sa ss m = Inl add_is_not_a_function"
  using assms
proof (induction ss arbitrary: m)
  case Nil
  then show ?case by (simp add: no_prototype_key_def)
next
  case (Cons s ss)
  show ?case
  proof (cases "secret s \<in> set object_prototype_keys")
    case True
    from add_secret_throws[OF True Cons.prems(2)] show ?thesis by simp
  next
    case False
    with Cons.prems(1) have ss: "\<not> no_prototype_key (secret ` set ss)"
      by (simp add: no_prototype_key_insert)
    from add_secret_ok[OF False, of sa m] obtain m1 where
      m1: "add_secret sa s m = Inr m1" "fst ` set m1 = insert (secret s) (fst ` set m)"
      by auto
    have "no_prototype_key (fst ` set m1)"
      unfolding m1(2) using False Cons.prems(2) by (simp add: no_prototype_key_insert)
    from Cons.IH[OF ss this] m1(1) show ?thesis by simp
  qed
qed

lemma backend_secrets_Cons:
  "backend_secrets (e # b) = secret ` set (endpoint_secrets e) \<union> backend_secrets b"
  by (simp add: backend_secrets_def)

lemma add_endpoints_ok:
  assumes "no_prototype_key (backend_secrets b)"
  shows "\<exists>m'. add_endpoints d b m = Inr m' \<and> fst ` set m' = backend_secrets b \<union> fst ` set m
           \<and> ((\<forall>p \<in> set m. snd p \<noteq> []) \<longrightarrow> (\<forall>p \<in> set m'. snd p \<noteq> []))"
  using assms
proof (induction b arbitrary: m)
  case Nil
  then show ?case by (simp add: backend_secrets_def)
next
  case (Cons e b)
  from Cons.prems have e: "no_prototype_key (secret ` set (endpoint_secrets e))"
    and b: "no_prototype_key (backend_secrets b)"
    by (simp_all add: backend_secrets_Cons no_prototype_key_Un)
  from add_secrets_ok[OF e, of "endpoint_sa d e" m] obtain m1 where
    m1: "add_secrets (endpoint_sa d e) (endpoint_secrets e) m = Inr m1"
      "fst ` set m1 = secret ` set (endpoint_secrets e) \<union> fst ` set m"
      "(\<forall>p \<in> set m. snd p \<noteq> []) \<longrightarrow> (\<forall>p \<in> set m1. snd p \<noteq> [])"
    by auto
  from Cons.IH[OF b, of m1] obtain m2 where
    m2: "add_endpoints d b m1 = Inr m2" "fst ` set m2 = backend_secrets b \<union> fst ` set m1"
      "(\<forall>p \<in> set m1. snd p \<noteq> []) \<longrightarrow> (\<forall>p \<in> set m2. snd p \<noteq> [])"
    by auto
  have "add_endpoints d (e # b) m = Inr m2" using m1(1) m2(1) by simp
  moreover have "fst ` set m2 = backend_secrets (e # b) \<union> fst ` set m"
    unfolding m2(2) m1(2) backend_secrets_Cons by (simp add: Un_assoc Un_commute Un_left_commute)
  moreover have "(\<forall>p \<in> set m. snd p \<noteq> []) \<longrightarrow> (\<forall>p \<in> set m2. snd p \<noteq> [])"
    using m1(3) m2(3) by simp
  ultimately show ?case by (intro exI[of _ m2] conjI)
qed

lemma add_endpoints_throws:
  assumes "\<not> no_prototype_key (backend_secrets b)" and "no_prototype_key (fst ` set m)"
  shows "add_endpoints d b m = Inl add_is_not_a_function"
  using assms
proof (induction b arbitrary: m)
  case Nil
  then show ?case by (simp add: no_prototype_key_def backend_secrets_def)
next
  case (Cons e b)
  show ?case
  proof (cases "no_prototype_key (secret ` set (endpoint_secrets e))")
    case False
    from add_secrets_throws[OF False Cons.prems(2)] show ?thesis by simp
  next
    case True
    with Cons.prems(1) have b: "\<not> no_prototype_key (backend_secrets b)"
      by (simp add: backend_secrets_Cons no_prototype_key_Un)
    from add_secrets_ok[OF True, of "endpoint_sa d e" m] obtain m1 where
      m1: "add_secrets (endpoint_sa d e) (endpoint_secrets e) m = Inr m1"
        "fst ` set m1 = secret ` set (endpoint_secrets e) \<union> fst ` set m"
      by auto
    have "no_prototype_key (fst ` set m1)"
      unfolding m1(2) using True Cons.prems(2) by (simp add: no_prototype_key_Un)
    from Cons.IH[OF b this] m1(1) show ?thesis by simp
  qed
qed

lemma secretsToServiceAccounts_ok:
  assumes "no_prototype_key (backend_secrets b)"
  shows "\<exists>m. secretsToServiceAccounts d b = Inr m \<and> fst ` set m = backend_secrets b
           \<and> (\<forall>p \<in> set m. snd p \<noteq> [])"
  using add_endpoints_ok[OF assms, of d "[]"] by (simp add: secretsToServiceAccounts_def)

lemma secretsToServiceAccounts_throws:
  assumes "\<not> no_prototype_key (backend_secrets b)"
  shows "secretsToServiceAccounts d b = Inl add_is_not_a_function"
  unfolding secretsToServiceAccounts_def
  by (rule add_endpoints_throws[OF assms]) (simp add: no_prototype_key_def)

lemma set_Object_entries: "set (Object_entries obj) = set obj"
proof -
  have "set (Object_entries obj) =
          {p \<in> set obj. array_index (fst p) \<noteq> None} \<union> {p \<in> set obj. array_index (fst p) = None}"
    by (simp add: Object_entries_def)
  also have "\<dots> = set obj"
    by (rule set_eqI) auto
  finally show ?thesis .
qed


lemma update_keys_present:
  "map_of w k = Some v \<Longrightarrow> fst ` set (AList.update k v' w) = fst ` set w"
  by (auto simp: dom_update dest: map_of_SomeD intro: rev_image_eqI)

lemma get_property_cases:
  assumes "k \<notin> set object_prototype_keys"
  shows "(get_property w k = Undefined \<and> map_of w k = None)
         \<or> (\<exists>s. get_property w k = Own s \<and> map_of w k = Some s)"
  using assms by (cases "map_of w k") (simp_all add: get_property_def)

lemma remove_existing_sas_keys:
  assumes "k \<notin> set object_prototype_keys"
  shows "remove_existing_sas k sas w = Inr w' \<Longrightarrow> fst ` set w' \<subseteq> fst ` set w"
proof (induction sas arbitrary: w)
  case Nil
  then show ?case by simp
next
  case (Cons a sas)
  from get_property_cases[OF assms, of w] show ?case
  proof
    assume "get_property w k = Undefined \<and> map_of w k = None"
    with Cons.prems show ?thesis by simp
  next
    assume "\<exists>s. get_property w k = Own s \<and> map_of w k = Some s"
    then obtain s where own: "get_property w k = Own s" and Some: "map_of w k = Some s" by auto
    show ?thesis
    proof (cases "a \<in> set s")
      case False
      with own Cons.prems have "remove_existing_sas k sas w = Inr w'" by simp
      then show ?thesis by (rule Cons.IH)
    next
      case True
      define w1 where "w1 = AList.update k (set_delete a s) w"
      define w2 where "w2 = (if length (set_delete a s) = 0 then AList.delete k w1 else w1)"
      have "remove_existing_sas k sas w2 = Inr w'"
        using Cons.prems own True unfolding w1_def w2_def by (simp add: Let_def)
      then have "fst ` set w' \<subseteq> fst ` set w2"
        by (rule Cons.IH)
      also have "fst ` set w2 \<subseteq> fst ` set w1"
        using dom_delete_subset[of k w1] by (simp add: w2_def)
      also have "fst ` set w1 = fst ` set w"
        unfolding w1_def using Some by (rule update_keys_present)
      finally show ?thesis .
    qed
  qed
qed

lemma remove_existing_sas_error:
  assumes "k \<notin> set object_prototype_keys"
  shows "remove_existing_sas k sas w = Inl e \<Longrightarrow> e = has_on_undefined"
proof (induction sas arbitrary: w)
  case Nil
  then show ?case by simp
next
  case (Cons a sas)
  from get_property_cases[OF assms, of w] show ?case
  proof
    assume "get_property w k = Undefined \<and> map_of w k = None"
    with Cons.prems show ?thesis by simp
  next
    assume "\<exists>s. get_property w k = Own s \<and> map_of w k = Some s"
    then obtain s where own: "get_property w k = Own s" by auto
    show ?thesis
    proof (cases "a \<in> set s")
      case False
      with own Cons.prems have "remove_existing_sas k sas w = Inl e" by simp
      then show ?thesis by (rule Cons.IH)
    next
      case True
      define w1 where "w1 = AList.update k (set_delete a s) w"
      define w2 where "w2 = (if length (set_delete a s) = 0 then AList.delete k w1 else w1)"
      have "remove_existing_sas k sas w2 = Inl e"
        using Cons.prems own True unfolding w1_def w2_def by (simp add: Let_def)
      then show ?thesis by (rule Cons.IH)
    qed
  qed
qed

lemma remove_existing_throws:
  assumes "S \<in> fst ` set hv" and "S \<notin> fst ` set w"
    and "\<forall>p \<in> set hv. snd p \<noteq> []"
    and "no_prototype_key (fst ` set hv)"
  shows "remove_existing hv w = Inl has_on_undefined"
  using assms
proof (induction hv arbitrary: w)
  case Nil
  then show ?case by simp
next
  case (Cons entry rest)
  obtain k sas where entry: "entry = (k, sas)" by (cases entry)
  from Cons.prems(3) entry obtain a as where sas: "sas = a # as"
    by (cases sas) auto
  from Cons.prems(4) entry have k: "k \<notin> set object_prototype_keys"
    and rest: "no_prototype_key (fst ` set rest)"
    by (simp_all add: no_prototype_key_insert)
  show ?case
  proof (cases "k = S")
    case True
    from Cons.prems(2) k True have "get_property w S = Undefined"
      by (simp add: get_property_absent)
    with True entry sas show ?thesis by simp
  next
    case False
    with Cons.prems(1) entry have in_rest: "S \<in> fst ` set rest" by auto
    from Cons.prems(3) have ne_rest: "\<forall>p \<in> set rest. snd p \<noteq> []" by simp
    show ?thesis
    proof (cases "remove_existing_sas k sas w")
      case (Inl e)
      with remove_existing_sas_error[OF k Inl] entry show ?thesis by simp
    next
      case (Inr w')
      from remove_existing_sas_keys[OF k Inr] Cons.prems(2) have "S \<notin> fst ` set w'"
        by (rule contra_subsetD)
      from Cons.IH[OF in_rest this ne_rest rest] Inr entry show ?thesis by simp
    qed
  qed
qed

text \<open>
  C9, as amended. Whenever haveBackend binds some secret \<open>S\<close> (an endpoint of it names
  \<open>S\<close>) and wantBackend binds no service account to \<open>S\<close> (no endpoint of it names \<open>S\<close>),
  \<open>ensureSecretAccess\<close> throws a TypeError before any IAM update is issued: the result is
  the error, never a list of updates. When no secret of either backend has the name of
  a property of \<open>Object.prototype\<close>, it is the TypeError of \<open>.has\<close> on \<open>undefined\<close>, thrown
  in the removal loop; when one has, it is the TypeError of \<open>serviceAccounts.add\<close>, thrown
  while the maps are built.
\<close>

theorem ensureSecretAccess_throws_on_have_only_secret:
  assumes "S \<in> backend_secrets haveBackend" and "S \<notin> backend_secrets wantBackend"
  shows "(no_prototype_key (backend_secrets wantBackend \<union> backend_secrets haveBackend) \<longrightarrow>
            ensureSecretAccess d pid wantBackend haveBackend = Inl has_on_undefined)
         \<and> (\<not> no_prototype_key (backend_secrets wantBackend \<union> backend_secrets haveBackend) \<longrightarrow>
            ensureSecretAccess d pid wantBackend haveBackend = Inl add_is_not_a_function)"
proof (intro conjI impI)
  assume "no_prototype_key (backend_secrets wantBackend \<union> backend_secrets haveBackend)"
  then have nw: "no_prototype_key (backend_secrets wantBackend)"
    and nh: "no_prototype_key (backend_secrets haveBackend)"
    by (simp_all add: no_prototype_key_Un)
  from secretsToServiceAccounts_ok[OF nw, of d] obtain wm where
    wm: "secretsToServiceAccounts d wantBackend = Inr wm" "fst ` set wm = backend_secrets wantBackend"
    by auto
  from secretsToServiceAccounts_ok[OF nh, of d] obtain hm where
    hm: "secretsToServiceAccounts d haveBackend = Inr hm" "fst ` set hm = backend_secrets haveBackend"
      "\<forall>p \<in> set hm. snd p \<noteq> []"
    by auto
  have "remove_existing (Object_entries hm) wm = Inl has_on_undefined"
  proof (rule remove_existing_throws[where S = S])
    show "S \<in> fst ` set (Object_entries hm)"
      using assms(1) by (simp add: set_Object_entries hm(2))
    show "S \<notin> fst ` set wm"
      using assms(2) by (simp add: wm(2))
    show "\<forall>p \<in> set (Object_entries hm). snd p \<noteq> []"
      using hm(3) by (simp add: set_Object_entries)
    show "no_prototype_key (fst ` set (Object_entries hm))"
      using nh by (simp add: set_Object_entries hm(2))
  qed
  then show "ensureSecretAccess d pid wantBackend haveBackend = Inl has_on_undefined"
    by (simp add: ensureSecretAccess_def wm(1) hm(1))
next
  assume n: "\<not> no_prototype_key (backend_secrets wantBackend \<union> backend_secrets haveBackend)"
  show "ensureSecretAccess d pid wantBackend haveBackend = Inl add_is_not_a_function"
  proof (cases "no_prototype_key (backend_secrets wantBackend)")
    case False
    from secretsToServiceAccounts_throws[OF False, of d] show ?thesis
      by (simp add: ensureSecretAccess_def)
  next
    case True
    with n have nh: "\<not> no_prototype_key (backend_secrets haveBackend)"
      by (simp add: no_prototype_key_Un)
    from secretsToServiceAccounts_ok[OF True, of d] obtain wm where
      wm: "secretsToServiceAccounts d wantBackend = Inr wm" by auto
    from secretsToServiceAccounts_throws[OF nh, of d] wm show ?thesis
      by (simp add: ensureSecretAccess_def)
  qed
qed

lemma sample_no_proto: "no_prototype_key {''TOKEN'', ''API_KEY''}"
  by (simp add: no_prototype_key_def object_prototype_keys_def)

lemma upt_10: "[0 ..< 10] = [0, 1, 2, 3, 4, 5, 6, 7, 8, 9 :: nat]"
  by code_simp

lemma digit_value_eval:
  "digit_value c =
     map_of [(CHR ''0'', 0), (CHR ''1'', 1), (CHR ''2'', 2), (CHR ''3'', 3), (CHR ''4'', 4),
             (CHR ''5'', 5), (CHR ''6'', 6), (CHR ''7'', 7), (CHR ''8'', 8), (CHR ''9'', 9)] c"
  by (simp add: digit_value_def upt_10)

text \<open>The order of \<open>Object.entries\<close> on a small object.\<close>

lemma Object_entries_order:
  "map fst (Object_entries [(''b'', v1), (''10'', v2), (''a'', v3), (''9'', v4), (''01'', v5)])
     = [''9'', ''10'', ''b'', ''a'', ''01'']"
  by (simp add: Object_entries_def array_index_def numeric_identifier_def digit_value_eval)

text \<open>
  The condition is needed, and it is not enough: a secret that both backends bind makes
  the same lookup fail once the loop has emptied and deleted its entry of \<open>wantSecrets\<close>
  and haveBackend binds it to one more service account.
\<close>

lemma ensureSecretAccess_throws_after_delete:
  "ensureSecretAccess (\<lambda>p. p @ ''@appspot.gserviceaccount.com'') ''p''
       [\<lparr>serviceAccountEmail = Some ''a@example.com'', project = ''p'',
         secretEnvironmentVariables = Some [\<lparr>key = ''K'', secret = ''API_KEY''\<rparr>]\<rparr>]
       [\<lparr>serviceAccountEmail = Some ''a@example.com'', project = ''p'',
         secretEnvironmentVariables = Some [\<lparr>key = ''K'', secret = ''API_KEY''\<rparr>]\<rparr>,
        \<lparr>serviceAccountEmail = Some ''b@example.com'', project = ''p'',
         secretEnvironmentVariables = Some [\<lparr>key = ''K'', secret = ''API_KEY''\<rparr>]\<rparr>]
     = Inl has_on_undefined"
  by (simp add: ensureSecretAccess_def secretsToServiceAccounts_def add_secret_def endpoint_sa_def
        endpoint_secrets_def set_add_def set_delete_def Let_def get_property_def
        object_prototype_keys_def Object_entries_def array_index_def numeric_identifier_def
        digit_value_eval)

text \<open>A run that throws nothing: the updates are issued in the order of \<open>Object.entries\<close>.\<close>

lemma ensureSecretAccess_issues_updates:
  "ensureSecretAccess (\<lambda>p. p @ ''@appspot.gserviceaccount.com'') ''p''
       [\<lparr>serviceAccountEmail = Some ''a@example.com'', project = ''p'',
         secretEnvironmentVariables =
           Some [\<lparr>key = ''K'', secret = ''API_KEY''\<rparr>, \<lparr>key = ''N'', secret = ''7''\<rparr>]\<rparr>]
       []
     = Inr [\<lparr>iam_project = ''p'', iam_secret = ''7'', iam_members = [''a@example.com'']\<rparr>,
            \<lparr>iam_project = ''p'', iam_secret = ''API_KEY'', iam_members = [''a@example.com'']\<rparr>]"
  by (simp add: ensureSecretAccess_def secretsToServiceAccounts_def add_secret_def endpoint_sa_def
        endpoint_secrets_def set_add_def set_delete_def Let_def get_property_def
        object_prototype_keys_def Object_entries_def array_index_def numeric_identifier_def
        digit_value_eval)

theorem ensureSecretAccess_throws_on_have_only_secret_witness:
  "''API_KEY'' \<in> backend_secrets
       [\<lparr>serviceAccountEmail = Some ''sa@example.com'', project = ''p'',
         secretEnvironmentVariables = Some [\<lparr>key = ''K'', secret = ''API_KEY''\<rparr>]\<rparr>]
   \<and> ''API_KEY'' \<notin> backend_secrets
       [\<lparr>serviceAccountEmail = None, project = ''p'',
         secretEnvironmentVariables = Some [\<lparr>key = ''T'', secret = ''TOKEN''\<rparr>]\<rparr>]
   \<and> ensureSecretAccess (\<lambda>p. p @ ''@appspot.gserviceaccount.com'') ''p''
       [\<lparr>serviceAccountEmail = None, project = ''p'',
         secretEnvironmentVariables = Some [\<lparr>key = ''T'', secret = ''TOKEN''\<rparr>]\<rparr>]
       [\<lparr>serviceAccountEmail = Some ''sa@example.com'', project = ''p'',
         secretEnvironmentVariables = Some [\<lparr>key = ''K'', secret = ''API_KEY''\<rparr>]\<rparr>]
     = Inl has_on_undefined
   \<and> ''API_KEY'' \<in> backend_secrets
       [\<lparr>serviceAccountEmail = Some ''sa@example.com'', project = ''p'',
         secretEnvironmentVariables =
           Some [\<lparr>key = ''K'', secret = ''API_KEY''\<rparr>, \<lparr>key = ''S'', secret = ''toString''\<rparr>]\<rparr>]
   \<and> ensureSecretAccess (\<lambda>p. p @ ''@appspot.gserviceaccount.com'') ''p''
       [\<lparr>serviceAccountEmail = None, project = ''p'',
         secretEnvironmentVariables = Some [\<lparr>key = ''T'', secret = ''TOKEN''\<rparr>]\<rparr>]
       [\<lparr>serviceAccountEmail = Some ''sa@example.com'', project = ''p'',
         secretEnvironmentVariables =
           Some [\<lparr>key = ''K'', secret = ''API_KEY''\<rparr>, \<lparr>key = ''S'', secret = ''toString''\<rparr>]\<rparr>]
     = Inl add_is_not_a_function"
proof -
  let ?want = "[\<lparr>serviceAccountEmail = None, project = ''p'',
         secretEnvironmentVariables = Some [\<lparr>key = ''T'', secret = ''TOKEN''\<rparr>]\<rparr>]"
  let ?have1 = "[\<lparr>serviceAccountEmail = Some ''sa@example.com'', project = ''p'',
         secretEnvironmentVariables = Some [\<lparr>key = ''K'', secret = ''API_KEY''\<rparr>]\<rparr>]"
  let ?have2 = "[\<lparr>serviceAccountEmail = Some ''sa@example.com'', project = ''p'',
         secretEnvironmentVariables =
           Some [\<lparr>key = ''K'', secret = ''API_KEY''\<rparr>, \<lparr>key = ''S'', secret = ''toString''\<rparr>]\<rparr>]"
  have w: "backend_secrets ?want = {''TOKEN''}"
    and h1: "backend_secrets ?have1 = {''API_KEY''}"
    and h2: "backend_secrets ?have2 = {''API_KEY'', ''toString''}"
    by (simp_all add: backend_secrets_def endpoint_secrets_def)
  have in1: "''API_KEY'' \<in> backend_secrets ?have1" and in2: "''API_KEY'' \<in> backend_secrets ?have2"
    and out: "''API_KEY'' \<notin> backend_secrets ?want"
    by (simp_all add: w h1 h2)
  have n1: "no_prototype_key (backend_secrets ?want \<union> backend_secrets ?have1)"
    and n2: "\<not> no_prototype_key (backend_secrets ?want \<union> backend_secrets ?have2)"
    by (simp_all add: w h1 h2 no_prototype_key_def object_prototype_keys_def)
  show ?thesis
    using in1 in2 out n1 n2
      ensureSecretAccess_throws_on_have_only_secret[OF in1 out,
        of "\<lambda>p. p @ ''@appspot.gserviceaccount.com''" "''p''"]
      ensureSecretAccess_throws_on_have_only_secret[OF in2 out,
        of "\<lambda>p. p @ ''@appspot.gserviceaccount.com''" "''p''"]
    by simp
qed

text \<open>
  C9 as stated fails: for a secret named \<open>constructor\<close> that only haveBackend binds, the
  call throws while it builds the map of haveBackend, where \<open>secretsToSa[s.secret]\<close> is
  the inherited function and has no \<open>add\<close>; the lookup of \<open>.has\<close> is never reached and
  the error is not the one of a read on \<open>undefined\<close>.
\<close>

theorem ensureSecretAccess_throws_before_the_lookup:
  "''constructor'' \<in> backend_secrets
       [\<lparr>serviceAccountEmail = Some ''sa@example.com'', project = ''p'',
         secretEnvironmentVariables = Some [\<lparr>key = ''K'', secret = ''constructor''\<rparr>]\<rparr>]
   \<and> ''constructor'' \<notin> backend_secrets []
   \<and> secretsToServiceAccounts (\<lambda>p. p @ ''@appspot.gserviceaccount.com'')
       [\<lparr>serviceAccountEmail = Some ''sa@example.com'', project = ''p'',
         secretEnvironmentVariables = Some [\<lparr>key = ''K'', secret = ''constructor''\<rparr>]\<rparr>]
     = Inl (TypeError ''serviceAccounts.add is not a function'')
   \<and> ensureSecretAccess (\<lambda>p. p @ ''@appspot.gserviceaccount.com'') ''p'' []
       [\<lparr>serviceAccountEmail = Some ''sa@example.com'', project = ''p'',
         secretEnvironmentVariables = Some [\<lparr>key = ''K'', secret = ''constructor''\<rparr>]\<rparr>]
     = Inl (TypeError ''serviceAccounts.add is not a function'')
   \<and> ensureSecretAccess (\<lambda>p. p @ ''@appspot.gserviceaccount.com'') ''p'' []
       [\<lparr>serviceAccountEmail = Some ''sa@example.com'', project = ''p'',
         secretEnvironmentVariables = Some [\<lparr>key = ''K'', secret = ''constructor''\<rparr>]\<rparr>]
     \<noteq> Inl has_on_undefined"
  by (simp add: ensureSecretAccess_def secretsToServiceAccounts_def add_secret_def endpoint_sa_def
        endpoint_secrets_def backend_secrets_def get_property_def object_prototype_keys_def
        add_is_not_a_function_def has_on_undefined_def)

section \<open>Properties of the Node delegate\<close>

lemma sdkVersion_cached:
  "sdkVersion_field (fst s) = Some v \<Longrightarrow> sdkVersion w s = (v, s)"
  by (simp add: sdkVersion_def)

lemma sdkVersion_reads_cached:
  "sdkVersion_field (fst s) = Some v \<Longrightarrow> sdkVersion_reads n w s = (replicate n v, s)"
  by (induction n) (simp_all add: sdkVersion_cached)

lemma sdkVersion_sets_field:
  "sdkVersion_field (fst (snd (sdkVersion w s))) = Some (fst (sdkVersion w s))"
  by (cases "sdkVersion_field (fst s)") (simp_all add: sdkVersion_def Let_def)

lemma sdkVersion_again:
  "sdkVersion w (snd (sdkVersion w s)) = (fst (sdkVersion w s), snd (sdkVersion w s))"
  by (rule sdkVersion_cached) (rule sdkVersion_sets_field)

text \<open>
  C8. On a new delegate, the first read of \<open>sdkVersion\<close> makes exactly one lookup of the
  declared dependency version (one \<open>GetFunctionsSDKVersion\<close> event is added), and every
  read after it returns the same string and leaves both the delegate and the list of
  events as they are: the lookup is never made again.
\<close>

theorem sdkVersion_computed_once:
  "case sdkVersion w (Delegate pid pdir sdir rt, tr) of
     (v, s1) \<Rightarrow>
       v = (case getFunctionsSDKVersion w (lookups tr) of None \<Rightarrow> [] | Some x \<Rightarrow> x)
       \<and> snd s1 = tr @ [GetFunctionsSDKVersion sdir]
       \<and> lookups (snd s1) = lookups tr + 1
       \<and> (\<forall>n. sdkVersion_reads n w s1 = (replicate n v, s1))"
proof -
  obtain v s1 where r: "sdkVersion w (Delegate pid pdir sdir rt, tr) = (v, s1)"
    by (cases "sdkVersion w (Delegate pid pdir sdir rt, tr)")
  have tr1: "snd s1 = tr @ [GetFunctionsSDKVersion sdir]"
    using r by (auto simp: sdkVersion_def Delegate_def Let_def)
  have val: "v = (case getFunctionsSDKVersion w (lookups tr) of None \<Rightarrow> [] | Some x \<Rightarrow> x)"
    using r by (auto simp: sdkVersion_def Delegate_def Let_def split: option.splits)
  have "sdkVersion_field (fst s1) = Some v"
    using sdkVersion_sets_field[of w "(Delegate pid pdir sdir rt, tr)"] r by simp
  then have "\<forall>n. sdkVersion_reads n w s1 = (replicate n v, s1)"
    by (simp add: sdkVersion_reads_cached)
  with tr1 val r show ?thesis by (simp add: lookups_def)
qed

lemma sdkVersion_events:
  "snd (snd (sdkVersion w s)) =
     snd s @ (if sdkVersion_field (fst s) = None then [GetFunctionsSDKVersion (sourceDir (fst s))] else [])"
  by (cases "sdkVersion_field (fst s)") (simp_all add: sdkVersion_def Let_def)

lemma sdkVersion_sourceDir:
  "sourceDir (fst (snd (sdkVersion w s))) = sourceDir (fst s)"
  by (cases "sdkVersion_field (fst s)") (simp_all add: sdkVersion_def Let_def)

lemma gate_events_simps [simp]:
  "gate_events [] = []"
  "gate_events (e # es) = (if is_gate_event e then e # gate_events es else gate_events es)"
  by (simp_all add: gate_events_def)

lemma live_events_simps [simp]:
  "live_events [] = []"
  "live_events (e # es) = (if is_live_event e then e # live_events es else live_events es)"
  by (simp_all add: live_events_def)

lemma gate_events_append [simp]: "gate_events (xs @ ys) = gate_events xs @ gate_events ys"
  by (simp add: gate_events_def)

lemma live_events_append [simp]: "live_events (xs @ ys) = live_events xs @ live_events ys"
  by (simp add: live_events_def)

lemma gate_events_sdkVersion:
  "gate_events (snd (snd (sdkVersion w s))) = gate_events (snd s)"
  by (simp add: sdkVersion_events)

lemma live_events_sdkVersion:
  "live_events (snd (snd (sdkVersion w s))) = live_events (snd s)"
  by (simp add: sdkVersion_events)

lemma timer_kill_events:
  "gate_events (snd (timer_kill c)) = [] \<and> live_events (snd (timer_kill c)) = []"
  by (simp add: timer_kill_def kill_def)

lemma serve_teardown_events:
  "gate_events (snd (snd (serve_teardown port tw c))) = []
   \<and> live_events (snd (snd (serve_teardown port tw c))) = []"
  unfolding serve_teardown_def Let_def
  by (simp add: timer_kill_events split: outcome.splits option.splits)

lemma serve_events:
  "gate_events (snd (snd (serve port config envs w s))) = gate_events (snd s)"
  by (simp add: serve_def Let_def log_def split: sum.splits)

lemma live_discovery_gate_events:
  "gate_events (snd (snd (live_discovery config envs w s))) = gate_events (snd s)"
proof -
  have g: "gate_events [GetPort] = []"
    by simp
  have sv: "gate_events (snd (snd (serve p config envs w (log GetPort s)))) = gate_events (snd s)" for p
    by (simp add: serve_events log_def g)
  show ?thesis
  proof (cases "getPort w")
    case (Resolves p)
    obtain r s2 where sr: "serve p config envs w (log GetPort s) = (r, s2)"
      by (cases "serve p config envs w (log GetPort s)")
    with sv[of p] have s2: "gate_events (snd s2) = gate_events (snd s)" by simp
    obtain k proc evs where td: "serve_teardown p w (child_at_teardown w) = (k, proc, evs)"
      by (cases "serve_teardown p w (child_at_teardown w)")
    with serve_teardown_events[of p w "child_at_teardown w"] have evs: "gate_events evs = []" by simp
    show ?thesis
      using Resolves sr td s2 evs
      by (cases r; cases "spawn_error w"; cases "detectFromPort w p")
         (simp_all add: live_discovery_def Let_def log_def g)
  qed (simp_all add: live_discovery_def Let_def log_def g)
qed

text \<open>
  C1. In \<open>discoverBuild\<close> of the Node delegate, with the SDK version the delegate resolves:
  a version that \<open>semver.valid\<close> rejects gives the result of the legacy
  \<open>parseTriggers\<close> fallback and no warning; a valid version that is \<open>semver.lt\<close> the
  minimum \<open>3.20.0\<close> gives the result of the same fallback after exactly one
  outdated-version warning; a valid version at or above the minimum gives neither a call
  of the fallback nor a warning.
\<close>

theorem discoverBuild_version_gate:
  "(\<not> semver_valid w (fst (sdkVersion w (d, []))) \<longrightarrow>
      fst (discoverBuild config envs w (d, [])) = parseTriggers_discoverBuild w
      \<and> gate_events (snd (snd (discoverBuild config envs w (d, [])))) = [ParseTriggersDiscoverBuild])
   \<and> (semver_valid w (fst (sdkVersion w (d, [])))
        \<and> semver_lt w (fst (sdkVersion w (d, []))) MIN_FUNCTIONS_SDK_VERSION \<longrightarrow>
      fst (discoverBuild config envs w (d, [])) = parseTriggers_discoverBuild w
      \<and> gate_events (snd (snd (discoverBuild config envs w (d, [])))) =
          [outdated_warning (fst (sdkVersion w (d, []))), ParseTriggersDiscoverBuild])
   \<and> (semver_valid w (fst (sdkVersion w (d, [])))
        \<and> \<not> semver_lt w (fst (sdkVersion w (d, []))) MIN_FUNCTIONS_SDK_VERSION \<longrightarrow>
      gate_events (snd (snd (discoverBuild config envs w (d, [])))) = [])"
proof -
  obtain v s1 where r: "sdkVersion w (d, []) = (v, s1)"
    by (cases "sdkVersion w (d, [])")
  have again: "sdkVersion w s1 = (v, s1)"
    using sdkVersion_again[of w "(d, [])"] r by simp
  have g1: "gate_events (snd s1) = []"
    using gate_events_sdkVersion[of w "(d, [])"] r by simp
  have invalid: "\<not> semver_valid w v \<Longrightarrow>
      discoverBuild config envs w (d, []) =
        (parseTriggers_discoverBuild w,
         log ParseTriggersDiscoverBuild
           (log (LoggerDebug (''Could not parse firebase-functions version '' @ quoted v @
                   '' into semver. Falling back to parseTriggers.'')) s1))"
    by (simp add: discoverBuild_def r again)
  have outdated: "semver_valid w v \<Longrightarrow> semver_lt w v MIN_FUNCTIONS_SDK_VERSION \<Longrightarrow>
      discoverBuild config envs w (d, []) =
        (parseTriggers_discoverBuild w,
         log ParseTriggersDiscoverBuild (fst s1, snd s1 @ [outdated_warning v]))"
    by (simp add: discoverBuild_def r again log_def outdated_warning_def)
  have passes: "semver_valid w v \<Longrightarrow> \<not> semver_lt w v MIN_FUNCTIONS_SDK_VERSION \<Longrightarrow>
      gate_events (snd (snd (discoverBuild config envs w (d, [])))) = []"
    using g1
    by (simp add: discoverBuild_def r again log_def live_discovery_gate_events Let_def
          split: outcome.splits option.splits)
  show ?thesis
    using invalid outdated passes g1
    by (simp add: r log_def outdated_warning_def)
qed

lemma live_events_serve_teardown:
  "live_events (snd (snd (serve_teardown port tw c))) = []"
  by (simp add: serve_teardown_events)

lemma static_before_live_found:
  "live_events xs = [] \<Longrightarrow> static_before_live (xs @ DetectFromYaml p # ys)"
  by (induction xs rule: static_before_live.induct) (simp_all split: if_splits)

lemma static_before_live_none:
  "live_events xs = [] \<Longrightarrow> static_before_live xs"
  by (induction xs rule: static_before_live.induct) (simp_all split: if_splits)

lemma live_discovery_extends:
  "\<exists>ys. snd (snd (live_discovery config envs w s)) = snd s @ ys"
proof (cases "getPort w")
  case (Resolves p)
  obtain r s2 where sr: "serve p config envs w (log GetPort s) = (r, s2)"
    by (cases "serve p config envs w (log GetPort s)")
  then have s2: "\<exists>ys. snd s2 = snd s @ ys"
    by (auto simp: serve_def Let_def log_def split: sum.splits)
  obtain k proc evs where td: "serve_teardown p w (child_at_teardown w) = (k, proc, evs)"
    by (cases "serve_teardown p w (child_at_teardown w)")
  show ?thesis
    using Resolves sr td s2
    by (cases r; cases "spawn_error w"; cases "detectFromPort w p")
       (auto simp: live_discovery_def Let_def log_def)
qed (simp_all add: live_discovery_def Let_def log_def)

lemma discoverBuild_static_before_live:
  "static_before_live (snd (snd (discoverBuild config envs w (d, []))))"
proof -
  obtain v s1 where r: "sdkVersion w (d, []) = (v, s1)"
    by (cases "sdkVersion w (d, [])")
  have again: "sdkVersion w s1 = (v, s1)"
    using sdkVersion_again[of w "(d, [])"] r by simp
  have l1: "live_events (snd s1) = []"
    using live_events_sdkVersion[of w "(d, [])"] r by simp
  obtain ys where ys: "snd (snd (live_discovery config envs w
                          (fst s1, snd s1 @ [DetectFromYaml (sourceDir (fst s1))]))) =
                       (snd s1 @ [DetectFromYaml (sourceDir (fst s1))]) @ ys"
    using live_discovery_extends[of config envs w
            "(fst s1, snd s1 @ [DetectFromYaml (sourceDir (fst s1))])"] by auto
  have found: "static_before_live (snd s1 @ DetectFromYaml p # zs)" for p zs
    using l1 by (rule static_before_live_found)
  have none: "static_before_live (snd s1 @ [LoggerDebug m, ParseTriggersDiscoverBuild])"
    "static_before_live (snd s1 @ [LogLabeledWarning l m, ParseTriggersDiscoverBuild])" for l m
    using l1 by (simp_all add: static_before_live_none)
  show ?thesis
    using found none ys
    by (simp add: discoverBuild_def r again log_def Let_def
          split: outcome.splits option.splits)
qed

lemma dart_discoverBuild_static_before_live:
  "static_before_live (snd (dart_discoverBuild dw dd))"
  by (simp add: dart_discoverBuild_def Let_def split: outcome.splits option.splits)

text \<open>
  C2. When \<open>detectFromYaml\<close> returns a build, \<open>discoverBuild\<close> returns that build and
  takes no step of live discovery (no port, no process, no probe, no teardown): for the
  Node delegate when the SDK version is valid and not below the minimum, for the Dart
  delegate always. And in every run of either delegate, no step of live discovery comes
  before the first attempt at static discovery.
\<close>

theorem static_discovery_short_circuits:
  "(semver_valid w (fst (sdkVersion w (d, [])))
      \<and> \<not> semver_lt w (fst (sdkVersion w (d, []))) MIN_FUNCTIONS_SDK_VERSION
      \<and> detectFromYaml w = Resolves (Some b) \<longrightarrow>
        fst (discoverBuild config envs w (d, [])) = Resolves b
        \<and> live_events (snd (snd (discoverBuild config envs w (d, [])))) = [])
   \<and> (dart_detectFromYaml dw 0 = Resolves (Some b') \<longrightarrow>
        fst (dart_discoverBuild dw dd) = Resolves b'
        \<and> live_events (snd (dart_discoverBuild dw dd)) = [])
   \<and> static_before_live (snd (snd (discoverBuild config envs w (d, []))))
   \<and> static_before_live (snd (dart_discoverBuild dw dd))"
proof -
  obtain v s1 where r: "sdkVersion w (d, []) = (v, s1)"
    by (cases "sdkVersion w (d, [])")
  have again: "sdkVersion w s1 = (v, s1)"
    using sdkVersion_again[of w "(d, [])"] r by simp
  have l1: "live_events (snd s1) = []"
    using live_events_sdkVersion[of w "(d, [])"] r by simp
  have node: "semver_valid w v \<Longrightarrow> \<not> semver_lt w v MIN_FUNCTIONS_SDK_VERSION \<Longrightarrow>
      detectFromYaml w = Resolves (Some b) \<Longrightarrow>
      fst (discoverBuild config envs w (d, [])) = Resolves b
      \<and> live_events (snd (snd (discoverBuild config envs w (d, [])))) = []"
    using l1 by (simp add: discoverBuild_def r again log_def Let_def)
  have dart: "dart_detectFromYaml dw 0 = Resolves (Some b') \<Longrightarrow>
      fst (dart_discoverBuild dw dd) = Resolves b'
      \<and> live_events (snd (dart_discoverBuild dw dd)) = []"
    by (simp add: dart_discoverBuild_def Let_def)
  have sb1: "static_before_live (snd (snd (discoverBuild config envs w (d, []))))"
    by (rule discoverBuild_static_before_live)
  have sb2: "static_before_live (snd (dart_discoverBuild dw dd))"
    by (rule dart_discoverBuild_static_before_live)
  show ?thesis
    using node dart sb1 sb2 by (simp add: r)
qed

theorem discoverBuild_version_gate_witness:
  "\<not> plain_valid []
   \<and> fst (discoverBuild None Map.empty (sample_world None Never Never) (sample_delegate, []))
       = Resolves ''build of parseTriggers''
   \<and> gate_events (snd (snd (discoverBuild None Map.empty (sample_world None Never Never)
                                (sample_delegate, []))))
       = [ParseTriggersDiscoverBuild]
   \<and> plain_valid ''3.9.0'' \<and> plain_lt ''3.9.0'' MIN_FUNCTIONS_SDK_VERSION
   \<and> fst (discoverBuild None Map.empty (sample_world (Some ''3.9.0'') Never Never) (sample_delegate, []))
       = Resolves ''build of parseTriggers''
   \<and> gate_events (snd (snd (discoverBuild None Map.empty (sample_world (Some ''3.9.0'') Never Never)
                                (sample_delegate, []))))
       = [outdated_warning ''3.9.0'', ParseTriggersDiscoverBuild]
   \<and> plain_valid ''3.25.0'' \<and> \<not> plain_lt ''3.25.0'' MIN_FUNCTIONS_SDK_VERSION
   \<and> gate_events (snd (snd (discoverBuild None Map.empty
                                (sample_world (Some ''3.25.0'') (Resolves None) (Resolves ''build of the probe''))
                                (sample_delegate, []))))
       = []"
proof -
  have v: "fst (sdkVersion (sample_world x y p) (sample_delegate, [])) =
             (case x of None \<Rightarrow> [] | Some a \<Rightarrow> a)" for x y p
    by (simp add: sdkVersion_def sample_world_def sample_delegate_def Delegate_def split: option.splits)
  have sel: "semver_valid (sample_world x y p) = plain_valid" "semver_lt (sample_world x y p) = plain_lt"
    "parseTriggers_discoverBuild (sample_world x y p) = Resolves ''build of parseTriggers''" for x y p
    by (simp_all add: sample_world_def)
  have a: "\<not> plain_valid []" by code_simp
  have b: "plain_valid ''3.9.0'' \<and> plain_lt ''3.9.0'' MIN_FUNCTIONS_SDK_VERSION" by code_simp
  have c: "plain_valid ''3.25.0'' \<and> \<not> plain_lt ''3.25.0'' MIN_FUNCTIONS_SDK_VERSION" by code_simp
  show ?thesis
    using a b c
      discoverBuild_version_gate[of "sample_world None Never Never" sample_delegate None Map.empty]
      discoverBuild_version_gate[of "sample_world (Some ''3.9.0'') Never Never" sample_delegate None Map.empty]
      discoverBuild_version_gate[of "sample_world (Some ''3.25.0'') (Resolves None) (Resolves ''build of the probe'')"
         sample_delegate None Map.empty]
    by (simp add: v sel)
qed

lemma sample_world_sel:
  "semver_valid (sample_world x y p) = plain_valid"
  "semver_lt (sample_world x y p) = plain_lt"
  "parseTriggers_discoverBuild (sample_world x y p) = Resolves ''build of parseTriggers''"
  "detectFromYaml (sample_world x y p) = y"
  "getPort (sample_world x y p) = Resolves 5001"
  "require_resolve (sample_world x y p) = Inr ''/app/node_modules/firebase-functions/lib/index.js''"
  "detectFromPort (sample_world x y p) n = p"
  "child_at_teardown (sample_world x y p) = sample_child"
  "quit_request (sample_world x y p) = Resolves ()"
  "exits_on_quit (sample_world x y p) = Some 0"
  "error_event (sample_world x y p) = None"
  by (simp_all add: sample_world_def)

lemma sample_sdkVersion:
  "fst (sdkVersion (sample_world x y p) (sample_delegate, [])) = (case x of None \<Rightarrow> [] | Some a \<Rightarrow> a)"
  by (simp add: sdkVersion_def sample_world_def sample_delegate_def Delegate_def split: option.splits)

lemma sample_version_ok:
  "plain_valid ''3.25.0'' \<and> \<not> plain_lt ''3.25.0'' MIN_FUNCTIONS_SDK_VERSION"
  by code_simp

theorem static_discovery_short_circuits_witness:
  "plain_valid ''3.25.0'' \<and> \<not> plain_lt ''3.25.0'' MIN_FUNCTIONS_SDK_VERSION
   \<and> fst (discoverBuild None Map.empty
            (sample_world (Some ''3.25.0'') (Resolves (Some ''static build'')) Never)
            (sample_delegate, [])) = Resolves ''static build''
   \<and> live_events (snd (snd (discoverBuild None Map.empty
            (sample_world (Some ''3.25.0'') (Resolves (Some ''static build'')) Never)
            (sample_delegate, [])))) = []
   \<and> fst (dart_discoverBuild (sample_dart_world (Resolves (Some ''static build'')) Never [])
            sample_dart_delegate) = Resolves ''static build''
   \<and> live_events (snd (dart_discoverBuild (sample_dart_world (Resolves (Some ''static build'')) Never [])
            sample_dart_delegate)) = []"
  using sample_version_ok
    static_discovery_short_circuits[of
      "sample_world (Some ''3.25.0'') (Resolves (Some ''static build'')) Never" sample_delegate
      "''static build''" None Map.empty
      "sample_dart_world (Resolves (Some ''static build'')) Never []" "''static build''"
      sample_dart_delegate]
  by (simp add: sample_world_sel sample_sdkVersion sample_dart_world_def)

lemma sample_command:
  "take (nat (lastIndexOf ''/app/node_modules/firebase-functions/lib/index.js''
                ''node_modules'' + 12))
     ''/app/node_modules/firebase-functions/lib/index.js''
     = ''/app/node_modules''"
  by code_simp

lemma sample_teardown:
  "fst (serve_teardown 5001 (sample_world x y p) sample_child) = Resolves ()"
  by (simp add: serve_teardown_def settle_exit_def sample_world_sel sample_child_def Let_def)

lemma live_discovery_no_port:
  "getPort w = Rejects e \<Longrightarrow> live_discovery config envs w s = (Rejects e, log GetPort s)"
  by (simp add: live_discovery_def Let_def)

lemma live_discovery_serve_throws:
  "getPort w = Resolves port \<Longrightarrow> require_resolve w = Inl e \<Longrightarrow>
   live_discovery config envs w s = (Rejects e, log GetPort s)"
  by (simp add: live_discovery_def serve_def Let_def)

lemma live_discovery_failed_spawn:
  "getPort w = Resolves port \<Longrightarrow> require_resolve w = Inr sdkPath \<Longrightarrow> spawn_error w = Some e \<Longrightarrow>
   live_discovery config envs w s =
     (Never,
      fst s,
      snd s @ [GetPort,
               Spawn (path_join [take (nat (lastIndexOf sdkPath ''node_modules'' + 12)) sdkPath,
                                 ''.bin'', ''firebase-functions'']) [sourceDir (fst s)],
               DetectFromPort port,
               UncaughtError e])"
  by (simp add: live_discovery_def serve_def Let_def log_def)

lemma live_discovery_probe_settles:
  assumes "getPort w = Resolves port" and "require_resolve w = Inr sdkPath"
    and "spawn_error w = None" and "detectFromPort w port \<noteq> Never"
  shows "live_discovery config envs w s =
     (finally_kill (detectFromPort w port) (fst (serve_teardown port w (child_at_teardown w))),
      fst s,
      snd s @ [GetPort,
               Spawn (path_join [take (nat (lastIndexOf sdkPath ''node_modules'' + 12)) sdkPath,
                                 ''.bin'', ''firebase-functions'']) [sourceDir (fst s)],
               DetectFromPort port,
               InvokeTeardown]
            @ snd (snd (serve_teardown port w (child_at_teardown w))))"
proof -
  obtain k proc evs where td: "serve_teardown port w (child_at_teardown w) = (k, proc, evs)"
    by (cases "serve_teardown port w (child_at_teardown w)")
  show ?thesis
    using assms td
    by (cases "detectFromPort w port")
       (simp_all add: live_discovery_def serve_def Let_def log_def)
qed

lemma discoverBuild_reaches_live_discovery:
  assumes "semver_valid w (fst (sdkVersion w (d, [])))"
    and "\<not> semver_lt w (fst (sdkVersion w (d, []))) MIN_FUNCTIONS_SDK_VERSION"
    and "detectFromYaml w = Resolves None"
  shows "discoverBuild config envs w (d, []) =
           live_discovery config envs w
             (fst (snd (sdkVersion w (d, []))),
              snd (snd (sdkVersion w (d, []))) @ [DetectFromYaml (sourceDir d)])"
proof -
  obtain v s1 where r: "sdkVersion w (d, []) = (v, s1)"
    by (cases "sdkVersion w (d, [])")
  have again: "sdkVersion w s1 = (v, s1)"
    using sdkVersion_again[of w "(d, [])"] r by simp
  have sd: "sourceDir (fst s1) = sourceDir d"
    using sdkVersion_sourceDir[of w "(d, [])"] r by simp
  show ?thesis
    using assms sd by (simp add: discoverBuild_def r again log_def Let_def)
qed

text \<open>
  C3, as amended. In \<open>discoverBuild\<close> of the Node delegate, when the version gate passes
  and no static manifest is found: if the port finder rejects, or \<open>serve\<close> throws, the call
  rejects with that error after the attempt to acquire a port, and nothing else of live
  discovery happens. If a port is acquired, \<open>serve\<close> returns, the child emits no \<open>error\<close>
  before the teardown and the probe resolves or rejects, then the steps of live discovery
  are, in this order and each exactly once, the acquisition of the port, the start of one
  process, the probe of the port and the invocation of the teardown, whose own actions
  end the run. The call settles only as the teardown does: with the result of the probe
  (its build, or its error) when the teardown resolves, with the error of the teardown
  when it rejects, and never when it never settles.
\<close>

theorem live_discovery_order:
  assumes "semver_valid w (fst (sdkVersion w (d, [])))"
    and "\<not> semver_lt w (fst (sdkVersion w (d, []))) MIN_FUNCTIONS_SDK_VERSION"
    and "detectFromYaml w = Resolves None"
  shows "(getPort w = Rejects e \<longrightarrow>
            fst (discoverBuild config envs w (d, [])) = Rejects e
            \<and> live_events (snd (snd (discoverBuild config envs w (d, [])))) = [GetPort])
         \<and> (getPort w = Resolves port \<and> require_resolve w = Inl e \<longrightarrow>
            fst (discoverBuild config envs w (d, [])) = Rejects e
            \<and> live_events (snd (snd (discoverBuild config envs w (d, [])))) = [GetPort])
         \<and> (getPort w = Resolves port \<and> require_resolve w = Inr sdkPath \<and> spawn_error w = None
              \<and> detectFromPort w port \<noteq> Never \<longrightarrow>
            live_events (snd (snd (discoverBuild config envs w (d, [])))) =
              [GetPort,
               Spawn (path_join [take (nat (lastIndexOf sdkPath ''node_modules'' + 12)) sdkPath,
                                 ''.bin'', ''firebase-functions'']) [sourceDir d],
               DetectFromPort port,
               InvokeTeardown]
            \<and> (\<exists>before. snd (snd (discoverBuild config envs w (d, []))) =
                   before @ [DetectFromPort port, InvokeTeardown]
                     @ snd (snd (serve_teardown port w (child_at_teardown w))))
            \<and> (fst (serve_teardown port w (child_at_teardown w)) = Resolves () \<longrightarrow>
                 fst (discoverBuild config envs w (d, [])) = detectFromPort w port)
            \<and> (fst (serve_teardown port w (child_at_teardown w)) = Rejects e \<longrightarrow>
                 fst (discoverBuild config envs w (d, [])) = Rejects e)
            \<and> (fst (serve_teardown port w (child_at_teardown w)) = Never \<longrightarrow>
                 fst (discoverBuild config envs w (d, [])) = Never))"
proof -
  let ?s = "(fst (snd (sdkVersion w (d, []))),
             snd (snd (sdkVersion w (d, []))) @ [DetectFromYaml (sourceDir d)])"
  have run: "discoverBuild config envs w (d, []) = live_discovery config envs w ?s"
    using assms by (rule discoverBuild_reaches_live_discovery)
  have l0: "live_events (snd ?s) = []"
    using live_events_sdkVersion[of w "(d, [])"] by simp
  have sd: "sourceDir (fst ?s) = sourceDir d"
    using sdkVersion_sourceDir[of w "(d, [])"] by simp
  have td: "live_events (snd (snd (serve_teardown port w (child_at_teardown w)))) = []"
    by (rule live_events_serve_teardown)
  have a: "getPort w = Rejects e \<Longrightarrow>
            fst (discoverBuild config envs w (d, [])) = Rejects e
            \<and> live_events (snd (snd (discoverBuild config envs w (d, [])))) = [GetPort]"
    using l0 by (simp add: run live_discovery_no_port log_def)
  have b: "getPort w = Resolves port \<Longrightarrow> require_resolve w = Inl e \<Longrightarrow>
            fst (discoverBuild config envs w (d, [])) = Rejects e
            \<and> live_events (snd (snd (discoverBuild config envs w (d, [])))) = [GetPort]"
    using l0 by (simp add: run live_discovery_serve_throws log_def)
  have c: "live_discovery config envs w ?s =
     (finally_kill (detectFromPort w port) (fst (serve_teardown port w (child_at_teardown w))),
      fst ?s,
      snd ?s @ [GetPort,
               Spawn (path_join [take (nat (lastIndexOf sdkPath ''node_modules'' + 12)) sdkPath,
                                 ''.bin'', ''firebase-functions'']) [sourceDir (fst ?s)],
               DetectFromPort port,
               InvokeTeardown]
            @ snd (snd (serve_teardown port w (child_at_teardown w))))"
    if "getPort w = Resolves port" "require_resolve w = Inr sdkPath" "spawn_error w = None"
       "detectFromPort w port \<noteq> Never"
    using that by (rule live_discovery_probe_settles)
  have c1: "live_events (snd (snd (discoverBuild config envs w (d, [])))) =
              [GetPort,
               Spawn (path_join [take (nat (lastIndexOf sdkPath ''node_modules'' + 12)) sdkPath,
                                 ''.bin'', ''firebase-functions'']) [sourceDir d],
               DetectFromPort port,
               InvokeTeardown]"
    if "getPort w = Resolves port" "require_resolve w = Inr sdkPath" "spawn_error w = None"
       "detectFromPort w port \<noteq> Never"
    using l0 td sd by (simp add: run c[OF that])
  have c2: "\<exists>before. snd (snd (discoverBuild config envs w (d, []))) =
                   before @ [DetectFromPort port, InvokeTeardown]
                     @ snd (snd (serve_teardown port w (child_at_teardown w)))"
    if "getPort w = Resolves port" "require_resolve w = Inr sdkPath" "spawn_error w = None"
       "detectFromPort w port \<noteq> Never"
    unfolding run c[OF that] snd_conv
    by (rule exI[of _ "snd ?s @ [GetPort,
               Spawn (path_join [take (nat (lastIndexOf sdkPath ''node_modules'' + 12)) sdkPath,
                                 ''.bin'', ''firebase-functions'']) [sourceDir (fst ?s)]]"]) simp
  have c3: "fst (discoverBuild config envs w (d, [])) =
              finally_kill (detectFromPort w port) (fst (serve_teardown port w (child_at_teardown w)))"
    if "getPort w = Resolves port" "require_resolve w = Inr sdkPath" "spawn_error w = None"
       "detectFromPort w port \<noteq> Never"
    by (simp add: run c[OF that])
  show ?thesis
    using a b c1 c2 c3 by (simp add: finally_kill_def)
qed

lemma live_world_sel:
  "semver_valid (live_world p) = plain_valid"
  "semver_lt (live_world p) = plain_lt"
  "getFunctionsSDKVersion (live_world p) n = Some ''3.25.0''"
  "detectFromYaml (live_world p) = Resolves None"
  "getPort (live_world p) = Resolves 5001"
  "require_resolve (live_world p) = Inr ''/app/node_modules/firebase-functions/lib/index.js''"
  "spawn_error (live_world p) = None"
  "detectFromPort (live_world p) n = p"
  "child_at_teardown (live_world p) = sample_child"
  by (simp_all add: live_world_def sample_world_def)

text \<open>
  C3 as stated fails. With the version gate passed and no static manifest, a port finder
  that rejects ends the call before any process is started or torn down. And when the
  spawn fails, the \<open>error\<close> event of the child finds no listener: the tool ends on the
  uncaught error after the probe was called, and the teardown is never invoked.
\<close>

theorem live_discovery_stops_early:
  "semver_valid ((live_world (Resolves ''build of the probe''))
        \<lparr>getPort := Rejects (ExternalError ''No open ports available'')\<rparr>) ''3.25.0''
   \<and> \<not> semver_lt ((live_world (Resolves ''build of the probe''))
        \<lparr>getPort := Rejects (ExternalError ''No open ports available'')\<rparr>)
        ''3.25.0'' MIN_FUNCTIONS_SDK_VERSION
   \<and> detectFromYaml ((live_world (Resolves ''build of the probe''))
        \<lparr>getPort := Rejects (ExternalError ''No open ports available'')\<rparr>) = Resolves None
   \<and> discoverBuild None Map.empty
        ((live_world (Resolves ''build of the probe''))
           \<lparr>getPort := Rejects (ExternalError ''No open ports available'')\<rparr>)
        (sample_delegate, [])
      = (Rejects (ExternalError ''No open ports available''),
         sample_delegate\<lparr>sdkVersion_field := Some ''3.25.0''\<rparr>,
         [GetFunctionsSDKVersion ''/app/functions'', DetectFromYaml ''/app/functions'', GetPort])
   \<and> discoverBuild None Map.empty
        ((live_world (Resolves ''build of the probe''))
           \<lparr>spawn_error := Some (ExternalError ''spawn firebase-functions ENOENT'')\<rparr>)
        (sample_delegate, [])
      = (Never,
         sample_delegate\<lparr>sdkVersion_field := Some ''3.25.0''\<rparr>,
         [GetFunctionsSDKVersion ''/app/functions'', DetectFromYaml ''/app/functions'', GetPort,
          Spawn ''/app/node_modules/.bin/firebase-functions'' [''/app/functions''],
          DetectFromPort 5001,
          UncaughtError (ExternalError ''spawn firebase-functions ENOENT'')])"
  using sample_version_ok
  by (simp add: live_world_def sample_world_def sample_delegate_def Delegate_def sdkVersion_def
        discoverBuild_def live_discovery_def serve_def log_def lookups_def Let_def sample_command)

theorem live_discovery_order_witness:
  "fst (discoverBuild None Map.empty
         ((live_world (Resolves ''build of the probe''))
            \<lparr>getPort := Rejects (ExternalError ''No open ports available'')\<rparr>)
         (sample_delegate, [])) = Rejects (ExternalError ''No open ports available'')
   \<and> fst (discoverBuild None Map.empty
         ((live_world (Resolves ''build of the probe''))
            \<lparr>require_resolve := Inl (ExternalError ''Cannot find module firebase-functions'')\<rparr>)
         (sample_delegate, [])) = Rejects (ExternalError ''Cannot find module firebase-functions'')
   \<and> live_events (snd (snd (discoverBuild None Map.empty
         (live_world (Resolves ''build of the probe'')) (sample_delegate, []))))
       = [GetPort, Spawn ''/app/node_modules/.bin/firebase-functions'' [''/app/functions''],
          DetectFromPort 5001, InvokeTeardown]
   \<and> fst (discoverBuild None Map.empty
         (live_world (Resolves ''build of the probe'')) (sample_delegate, []))
       = Resolves ''build of the probe''
   \<and> live_events (snd (snd (discoverBuild None Map.empty
         (live_world (Rejects (ExternalError ''no answer''))) (sample_delegate, []))))
       = [GetPort, Spawn ''/app/node_modules/.bin/firebase-functions'' [''/app/functions''],
          DetectFromPort 5001, InvokeTeardown]
   \<and> fst (discoverBuild None Map.empty
         (live_world (Rejects (ExternalError ''no answer''))) (sample_delegate, []))
       = Rejects (ExternalError ''no answer'')
   \<and> fst (discoverBuild None Map.empty
         ((live_world (Rejects (ExternalError ''no answer'')))
            \<lparr>quit_request := Rejects (ExternalError ''connect ECONNREFUSED 127.0.0.1:5001'')\<rparr>)
         (sample_delegate, [])) = Rejects (ExternalError ''connect ECONNREFUSED 127.0.0.1:5001'')
   \<and> fst (discoverBuild None Map.empty
         ((live_world (Resolves ''build of the probe''))\<lparr>child_at_teardown := exited_child\<rparr>)
         (sample_delegate, [])) = Never"
proof -
  have td: "fst (serve_teardown 5001 (live_world p) sample_child) = Resolves ()"
    "fst (serve_teardown 5001
            ((live_world p)\<lparr>quit_request := Rejects (ExternalError ''connect ECONNREFUSED 127.0.0.1:5001'')\<rparr>)
            sample_child) = Rejects (ExternalError ''connect ECONNREFUSED 127.0.0.1:5001'')"
    "fst (serve_teardown 5001 ((live_world p)\<lparr>child_at_teardown := exited_child\<rparr>) exited_child) = Never"
    for p :: "string outcome"
    by (simp_all add: serve_teardown_def settle_exit_def live_world_def sample_world_def
          sample_child_def exited_child_def Let_def)
  have sd: "sourceDir sample_delegate = ''/app/functions''"
    by (simp add: sample_delegate_def Delegate_def)
  show ?thesis
    using sample_version_ok
      live_discovery_order[where
        w = "(live_world (Resolves ''build of the probe''))
               \<lparr>getPort := Rejects (ExternalError ''No open ports available'')\<rparr>"
        and d = sample_delegate and config = None and envs = Map.empty
        and e = "ExternalError ''No open ports available''" and port = 5001 and sdkPath = "[]"]
      live_discovery_order[where
        w = "(live_world (Resolves ''build of the probe''))
               \<lparr>require_resolve := Inl (ExternalError ''Cannot find module firebase-functions'')\<rparr>"
        and d = sample_delegate and config = None and envs = Map.empty
        and e = "ExternalError ''Cannot find module firebase-functions''" and port = 5001
        and sdkPath = "[]"]
      live_discovery_order[where
        w = "live_world (Resolves ''build of the probe'')"
        and d = sample_delegate and config = None and envs = Map.empty
        and e = "ExternalError ''none''" and port = 5001
        and sdkPath = "''/app/node_modules/firebase-functions/lib/index.js''"]
      live_discovery_order[where
        w = "live_world (Rejects (ExternalError ''no answer''))"
        and d = sample_delegate and config = None and envs = Map.empty
        and e = "ExternalError ''none''" and port = 5001
        and sdkPath = "''/app/node_modules/firebase-functions/lib/index.js''"]
      live_discovery_order[where
        w = "(live_world (Rejects (ExternalError ''no answer'')))
               \<lparr>quit_request := Rejects (ExternalError ''connect ECONNREFUSED 127.0.0.1:5001'')\<rparr>"
        and d = sample_delegate and config = None and envs = Map.empty
        and e = "ExternalError ''connect ECONNREFUSED 127.0.0.1:5001''" and port = 5001
        and sdkPath = "''/app/node_modules/firebase-functions/lib/index.js''"]
      live_discovery_order[where
        w = "(live_world (Resolves ''build of the probe''))\<lparr>child_at_teardown := exited_child\<rparr>"
        and d = sample_delegate and config = None and envs = Map.empty
        and e = "ExternalError ''none''" and port = 5001
        and sdkPath = "''/app/node_modules/firebase-functions/lib/index.js''"]
    by (simp add: td sd sample_command live_world_sel sdkVersion_def Let_def
          sample_delegate_def[THEN arg_cong[where f = sdkVersion_field]] Delegate_def)
qed

section \<open>Properties of the Dart delegate\<close>

lemma names_path_yaml_not_found: "names_path (yaml_not_found p) p"
  unfolding names_path_def yaml_not_found_def error_message.simps sublist_def
  by (intro exI) (rule refl)

lemma wait_for_exit_rejects_iff:
  "wait_for_exit (ExitEvent code # evs) = Rejects e \<longleftrightarrow>
     (\<exists>c. code = Some c \<and> c \<noteq> 0 \<and> e = build_runner_failed c)"
  by (cases code) auto

lemma dart_trace_first_none:
  "dart_detectFromYaml w 0 = Resolves None \<Longrightarrow>
   dart_discoverBuild w d =
     (let yamlDir = path_join [dart_sourceDir d, ''.dart_tool'', ''firebase''];
          t2 = [DetectFromYaml yamlDir,
                LoggerDebug ''functions.yaml not found, running build_runner to generate it...'',
                Spawn (fst (bin d)) [''run'', ''build_runner'', ''build'']]
      in case wait_for_exit (build_runner_events w) of
           Rejects e \<Rightarrow> (Rejects e, t2)
         | Never \<Rightarrow> (Never, t2)
         | Resolves _ \<Rightarrow>
             (case dart_detectFromYaml w 1 of
                Rejects e \<Rightarrow> (Rejects e, t2 @ [DetectFromYaml yamlDir])
              | Never \<Rightarrow> (Never, t2 @ [DetectFromYaml yamlDir])
              | Resolves (Some b) \<Rightarrow> (Resolves b, t2 @ [DetectFromYaml yamlDir])
              | Resolves None \<Rightarrow> (Rejects (yaml_not_found (dart_yamlPath d)), t2 @ [DetectFromYaml yamlDir])))"
  by (simp add: dart_discoverBuild_def Let_def dart_spawn_build_runner_def dart_yamlPath_def
        split: outcome.splits option.splits)


text \<open>
  C10. In \<open>discoverBuild\<close> of the Dart delegate with no static manifest, an \<open>exit\<close> event
  of the generator with the code \<open>null\<close> is treated as the code 0: the wait resolves, the
  run is the run for the code 0, and the static manifest is read a second time. The
  \<open>build_runner failed\<close> rejection comes exactly from a numeric code other than 0, and
  then the manifest is not read again.
\<close>

theorem dart_null_exit_code_is_success:
  assumes "dart_detectFromYaml w 0 = Resolves None"
    and "build_runner_events w = ExitEvent code # evs"
  shows "(code = None \<longrightarrow>
            wait_for_exit (build_runner_events w) = Resolves ()
            \<and> dart_discoverBuild w d =
                dart_discoverBuild (w\<lparr>build_runner_events := ExitEvent (Some 0) # evs\<rparr>) d
            \<and> length (filter (\<lambda>e. e = DetectFromYaml (path_join [dart_sourceDir d, ''.dart_tool'', ''firebase'']))
                         (snd (dart_discoverBuild w d))) = 2)
         \<and> ((\<exists>c. wait_for_exit (build_runner_events w) = Rejects (build_runner_failed c))
              \<longleftrightarrow> (\<exists>c. code = Some c \<and> c \<noteq> 0))
         \<and> (\<forall>c. code = Some c \<and> c \<noteq> 0 \<longrightarrow>
              fst (dart_discoverBuild w d) = Rejects (build_runner_failed c)
              \<and> length (filter (\<lambda>e. e = DetectFromYaml (path_join [dart_sourceDir d, ''.dart_tool'', ''firebase'']))
                           (snd (dart_discoverBuild w d))) = 1)"
proof -
  have first': "dart_detectFromYaml (w\<lparr>build_runner_events := ExitEvent (Some 0) # evs\<rparr>) 0 = Resolves None"
    using assms(1) by simp
  have same: "code = None \<Longrightarrow> dart_discoverBuild w d =
                dart_discoverBuild (w\<lparr>build_runner_events := ExitEvent (Some 0) # evs\<rparr>) d"
    using assms(2) by (simp add: dart_trace_first_none[OF assms(1)] dart_trace_first_none[OF first'])
  have reread: "code = None \<Longrightarrow>
      length (filter (\<lambda>e. e = DetectFromYaml (path_join [dart_sourceDir d, ''.dart_tool'', ''firebase'']))
                (snd (dart_discoverBuild w d))) = 2"
    using assms(2)
    by (simp add: dart_trace_first_none[OF assms(1)] Let_def split: outcome.splits option.splits)
  have iff: "(\<exists>c. wait_for_exit (build_runner_events w) = Rejects (build_runner_failed c))
              \<longleftrightarrow> (\<exists>c. code = Some c \<and> c \<noteq> 0)"
    unfolding assms(2) wait_for_exit_rejects_iff by auto
  have failed: "code = Some c \<Longrightarrow> c \<noteq> 0 \<Longrightarrow>
      fst (dart_discoverBuild w d) = Rejects (build_runner_failed c)
      \<and> length (filter (\<lambda>e. e = DetectFromYaml (path_join [dart_sourceDir d, ''.dart_tool'', ''firebase'']))
                   (snd (dart_discoverBuild w d))) = 1" for c
    using assms(2) by (simp add: dart_trace_first_none[OF assms(1)] Let_def)
  show ?thesis
    using same reread iff failed assms(2) by simp
qed

theorem dart_null_exit_code_is_success_witness:
  "dart_discoverBuild (sample_dart_world (Resolves None) (Resolves (Some ''generated build'')) [ExitEvent None])
       sample_dart_delegate
     = dart_discoverBuild (sample_dart_world (Resolves None) (Resolves (Some ''generated build'')) [ExitEvent (Some 0)])
       sample_dart_delegate
   \<and> fst (dart_discoverBuild (sample_dart_world (Resolves None) (Resolves (Some ''generated build'')) [ExitEvent None])
       sample_dart_delegate) = Resolves ''generated build''
   \<and> fst (dart_discoverBuild (sample_dart_world (Resolves None) (Resolves (Some ''generated build'')) [ExitEvent (Some 2)])
       sample_dart_delegate) = Rejects (build_runner_failed 2)"
proof -
  have upd: "(sample_dart_world a b evs)\<lparr>build_runner_events := evs'\<rparr> = sample_dart_world a b evs'"
    for a b evs evs'
    by (simp add: sample_dart_world_def)
  have sel: "dart_detectFromYaml (sample_dart_world a b evs) n = (if n = 0 then a else b)"
    "build_runner_events (sample_dart_world a b evs) = evs" for a b evs n
    by (simp_all add: sample_dart_world_def)
  have run: "fst (dart_discoverBuild
                (sample_dart_world (Resolves None) (Resolves (Some ''generated build'')) [ExitEvent (Some 0)])
                sample_dart_delegate) = Resolves ''generated build''"
    by (simp add: dart_trace_first_none sel Let_def)
  show ?thesis
    using run
      dart_null_exit_code_is_success[of
        "sample_dart_world (Resolves None) (Resolves (Some ''generated build'')) [ExitEvent None]"
        None "[]" sample_dart_delegate]
      dart_null_exit_code_is_success[of
        "sample_dart_world (Resolves None) (Resolves (Some ''generated build'')) [ExitEvent (Some 2)]"
        "Some 2" "[]" sample_dart_delegate]
    by (simp add: sel upd)
qed

text \<open>
  C6, as amended. In \<open>discoverBuild\<close> of the Dart delegate with no static manifest: when
  the generator exits with a numeric code other than 0, the call rejects with the error
  \<open>build_runner failed with exit code N\<close> (which names the code); when the generator exits
  successfully and the manifest is still absent on the second read, the call rejects
  with an error that names the path of the manifest; and the call resolves with a build
  only when the second read returned that build.
\<close>

theorem dart_generator_failures:
  assumes "dart_detectFromYaml w 0 = Resolves None"
  shows "(\<forall>c evs. build_runner_events w = ExitEvent (Some c) # evs \<and> c \<noteq> 0 \<longrightarrow>
            fst (dart_discoverBuild w d) = Rejects (build_runner_failed c))
         \<and> (wait_for_exit (build_runner_events w) = Resolves ()
              \<and> dart_detectFromYaml w 1 = Resolves None \<longrightarrow>
            fst (dart_discoverBuild w d) = Rejects (yaml_not_found (dart_yamlPath d))
            \<and> names_path (yaml_not_found (dart_yamlPath d)) (dart_yamlPath d))
         \<and> (\<forall>b. fst (dart_discoverBuild w d) = Resolves b \<longrightarrow>
              wait_for_exit (build_runner_events w) = Resolves ()
              \<and> dart_detectFromYaml w 1 = Resolves (Some b))"
proof -
  have a: "build_runner_events w = ExitEvent (Some c) # evs \<Longrightarrow> c \<noteq> 0 \<Longrightarrow>
            fst (dart_discoverBuild w d) = Rejects (build_runner_failed c)" for c evs
    by (simp add: dart_trace_first_none[OF assms] Let_def)
  have b: "wait_for_exit (build_runner_events w) = Resolves () \<Longrightarrow>
           dart_detectFromYaml w 1 = Resolves None \<Longrightarrow>
            fst (dart_discoverBuild w d) = Rejects (yaml_not_found (dart_yamlPath d))"
    by (simp add: dart_trace_first_none[OF assms] Let_def)
  have c: "fst (dart_discoverBuild w d) = Resolves b \<Longrightarrow>
             wait_for_exit (build_runner_events w) = Resolves ()
             \<and> dart_detectFromYaml w 1 = Resolves (Some b)" for b
    by (simp add: dart_trace_first_none[OF assms] Let_def split: outcome.splits option.splits)
  show ?thesis
    using a b c names_path_yaml_not_found by blast
qed

text \<open>
  C6 as stated fails: for the exit code 1 the error is the \<open>build_runner failed\<close> message,
  in which the path of the manifest does not occur.
\<close>

theorem dart_generator_failure_names_no_path:
  "fst (dart_discoverBuild (sample_dart_world (Resolves None) (Resolves None) [ExitEvent (Some 1)])
          sample_dart_delegate)
     = Rejects (FirebaseError
         ''build_runner failed with exit code 1. Make sure your Dart project is properly configured.'')
   \<and> dart_yamlPath sample_dart_delegate = ''/app/.dart_tool/firebase/functions.yaml''
   \<and> \<not> names_path (FirebaseError
         ''build_runner failed with exit code 1. Make sure your Dart project is properly configured.'')
       (dart_yamlPath sample_dart_delegate)"
  by code_simp

theorem dart_generator_failures_witness:
  "fst (dart_discoverBuild (sample_dart_world (Resolves None) (Resolves None) [ExitEvent (Some 1)])
          sample_dart_delegate) = Rejects (build_runner_failed 1)
   \<and> fst (dart_discoverBuild (sample_dart_world (Resolves None) (Resolves None) [ExitEvent (Some 0)])
          sample_dart_delegate) = Rejects (yaml_not_found ''/app/.dart_tool/firebase/functions.yaml'')
   \<and> names_path (yaml_not_found ''/app/.dart_tool/firebase/functions.yaml'')
        ''/app/.dart_tool/firebase/functions.yaml''"
proof -
  have sel: "dart_detectFromYaml (sample_dart_world a b evs) n = (if n = 0 then a else b)"
    "build_runner_events (sample_dart_world a b evs) = evs" for a b evs n
    by (simp_all add: sample_dart_world_def)
  have p: "dart_yamlPath sample_dart_delegate = ''/app/.dart_tool/firebase/functions.yaml''"
    by (simp add: dart_yamlPath_def sample_dart_delegate_def)
  show ?thesis
    using
      dart_generator_failures[of
        "sample_dart_world (Resolves None) (Resolves None) [ExitEvent (Some 1)]" sample_dart_delegate]
      dart_generator_failures[of
        "sample_dart_world (Resolves None) (Resolves None) [ExitEvent (Some 0)]" sample_dart_delegate]
    by (simp add: sel p)
qed

section \<open>The environment of the spawned processes\<close>






section \<open>Properties of the teardown procedures\<close>


lemma one_process_after:
  assumes "fst (wait_exit beh (fst (force_kill name (after_grace beh proc (fst (killProcess name proc))))))
           = Resolves ()"
  shows "settled_flags (snd (wait_exit beh (fst (force_kill name (after_grace beh proc (fst (killProcess name proc)))))))"
  using assms
  by (auto simp: settled_flags_def wait_exit_def force_kill_def after_grace_def killProcess_def kill_def Let_def
      split: if_splits option.splits)

lemma one_process_noop:
  assumes "settled_flags proc"
  shows "killProcess name proc = (proc, [])"
    and "after_grace beh proc proc = proc"
    and "force_kill name proc = (proc, [])"
    and "wait_exit beh proc = (Resolves (), proc)"
  using assms
  by (auto simp: settled_flags_def wait_exit_def force_kill_def after_grace_def killProcess_def)

lemma both_resolve_iff:
  "both_resolve a b = Resolves () \<longleftrightarrow> a = Resolves () \<and> b = Resolves ()"
  by (cases a; cases b) (simp_all add: both_resolve_def)


lemma dart_watch_teardown_idempotent:
  assumes "fst (dart_watch_teardown behs procs) = Resolves ()"
  shows "dart_watch_teardown behs' (fst (snd (dart_watch_teardown behs procs)))
           = (Resolves (), fst (snd (dart_watch_teardown behs procs)), [SetTimeout 2000])"
proof -
  let ?w1 = "wait_exit (fst behs) (fst (force_kill ''dart run''
               (after_grace (fst behs) (fst procs) (fst (killProcess ''dart run'' (fst procs))))))"
  let ?w2 = "wait_exit (snd behs) (fst (force_kill ''build_runner''
               (after_grace (snd behs) (snd procs) (fst (killProcess ''build_runner'' (snd procs))))))"
  have st: "fst (snd (dart_watch_teardown behs procs)) = (snd ?w1, snd ?w2)"
    by (simp add: dart_watch_teardown_def Let_def)
  have "both_resolve (fst ?w1) (fst ?w2) = Resolves ()"
    using assms by (simp add: dart_watch_teardown_def Let_def)
  then have r: "fst ?w1 = Resolves ()" "fst ?w2 = Resolves ()"
    by (simp_all add: both_resolve_iff)
  have f1: "settled_flags (snd ?w1)" using r(1) by (rule one_process_after)
  have f2: "settled_flags (snd ?w2)" using r(2) by (rule one_process_after)
  show ?thesis
    unfolding st
    by (simp add: dart_watch_teardown_def Let_def one_process_noop[OF f1] one_process_noop[OF f2]
          both_resolve_def)
qed




lemma serve_teardown_stops_child:
  assumes "fst (serve_teardown port tw proc) = Resolves ()"
  shows "\<not> running (fst (snd (serve_teardown port tw proc)))"
  using assms
  by (auto simp: serve_teardown_def settle_exit_def Let_def timer_kill_def kill_def
      split: outcome.splits option.splits if_splits)

lemma serve_teardown_gone:
  assumes "\<not> running proc"
  shows "fst (serve_teardown port tw proc) \<noteq> Resolves ()"
    and "hd (snd (snd (serve_teardown port tw proc))) = Fetch (quit_url port)"
  using assms
  by (auto simp: serve_teardown_def Let_def split: outcome.splits)




text \<open>
  C7, as amended. The teardown of \<open>watch\<close> is idempotent: in the Node delegate it does
  nothing; in the Dart delegate a second invocation after a first one that resolved
  resolves, leaves both processes as they are and makes no attempt to signal one. The
  teardown of \<open>serve\<close> is not: after a first invocation that resolved, a second one sends
  the quit request again and does not resolve.
\<close>

theorem teardown_second_invocation:
  "watch_teardown = (Resolves (), [])
   \<and> (fst (dart_watch_teardown behs procs) = Resolves () \<longrightarrow>
        fst (dart_watch_teardown behs' (fst (snd (dart_watch_teardown behs procs)))) = Resolves ()
        \<and> fst (snd (dart_watch_teardown behs' (fst (snd (dart_watch_teardown behs procs)))))
            = fst (snd (dart_watch_teardown behs procs))
        \<and> kill_attempts (snd (snd (dart_watch_teardown behs' (fst (snd (dart_watch_teardown behs procs))))))
            = [])
   \<and> (fst (serve_teardown port tw proc) = Resolves () \<longrightarrow>
        fst (serve_teardown port tw' (fst (snd (serve_teardown port tw proc)))) \<noteq> Resolves ()
        \<and> hd (snd (snd (serve_teardown port tw' (fst (snd (serve_teardown port tw proc))))))
            = Fetch (quit_url port))"
proof -
  have dart: "fst (dart_watch_teardown behs procs) = Resolves () \<Longrightarrow>
        dart_watch_teardown behs' (fst (snd (dart_watch_teardown behs procs)))
          = (Resolves (), fst (snd (dart_watch_teardown behs procs)), [SetTimeout 2000])"
    by (rule dart_watch_teardown_idempotent)
  have node: "fst (serve_teardown port tw proc) = Resolves () \<Longrightarrow>
        fst (serve_teardown port tw' (fst (snd (serve_teardown port tw proc)))) \<noteq> Resolves ()
        \<and> hd (snd (snd (serve_teardown port tw' (fst (snd (serve_teardown port tw proc))))))
            = Fetch (quit_url port)"
    using serve_teardown_gone[OF serve_teardown_stops_child,
            where port1 = port and tw1 = tw and proc1 = proc and port = port and tw = tw']
    by simp
  show ?thesis
    using dart node by (simp add: watch_teardown_def kill_attempts_def)
qed

theorem teardown_second_invocation_witness:
  "fst (dart_watch_teardown (sample_behaviour, sample_behaviour) (sample_child, exited_child)) = Resolves ()
   \<and> kill_attempts (snd (snd (dart_watch_teardown (sample_behaviour, sample_behaviour)
                                 (sample_child, exited_child))))
       = [ChildKill ''dart run'' SIGTERM]
   \<and> fst (dart_watch_teardown (sample_behaviour, sample_behaviour)
        (fst (snd (dart_watch_teardown (sample_behaviour, sample_behaviour) (sample_child, exited_child)))))
       = Resolves ()
   \<and> kill_attempts (snd (snd (dart_watch_teardown (sample_behaviour, sample_behaviour)
        (fst (snd (dart_watch_teardown (sample_behaviour, sample_behaviour) (sample_child, exited_child)))))))
       = []
   \<and> fst (serve_teardown 5001 quit_answered sample_child) = Resolves ()
   \<and> fst (serve_teardown 5001 quit_answered (fst (snd (serve_teardown 5001 quit_answered sample_child))))
       \<noteq> Resolves ()"
proof -
  have d1: "fst (dart_watch_teardown (sample_behaviour, sample_behaviour) (sample_child, exited_child))
              = Resolves ()"
    "kill_attempts (snd (snd (dart_watch_teardown (sample_behaviour, sample_behaviour)
                                 (sample_child, exited_child))))
       = [ChildKill ''dart run'' SIGTERM]"
    by (simp_all add: dart_watch_teardown_def Let_def killProcess_def kill_def after_grace_def
          force_kill_def wait_exit_def both_resolve_def kill_attempts_def
          sample_child_def exited_child_def sample_behaviour_def)
  have n1: "fst (serve_teardown 5001 quit_answered sample_child) = Resolves ()"
    by (simp add: serve_teardown_def settle_exit_def Let_def quit_answered_def sample_child_def)
  show ?thesis
    using d1 n1
      teardown_second_invocation[where behs = "(sample_behaviour, sample_behaviour)"
        and procs = "(sample_child, exited_child)" and behs' = "(sample_behaviour, sample_behaviour)"
        and port = 5001 and tw = quit_answered and proc = sample_child and tw' = quit_answered]
    by simp
qed

text \<open>
  C7 as stated fails on the teardown of \<open>serve\<close>: after a first invocation that resolved
  (the child exited on the quit request), a second invocation rejects when its quit
  request is refused, and when the request is answered it never settles and the timer
  makes one more attempt to kill the process.
\<close>

theorem serve_teardown_twice:
  "fst (serve_teardown 5001 quit_answered sample_child) = Resolves ()
   \<and> serve_teardown 5001 quit_refused (fst (snd (serve_teardown 5001 quit_answered sample_child)))
       = (Rejects (ExternalError ''connect ECONNREFUSED 127.0.0.1:5001''),
          \<lparr>running = False, killed = False, exitCode = Some 0\<rparr>,
          [Fetch (quit_url 5001)])
   \<and> serve_teardown 5001 quit_answered (fst (snd (serve_teardown 5001 quit_answered sample_child)))
       = (Never,
          \<lparr>running = False, killed = False, exitCode = Some 0\<rparr>,
          [Fetch (quit_url 5001), SetTimeout 10000, ChildKill ''firebase-functions'' SIGKILL])"
  by (simp add: serve_teardown_def settle_exit_def Let_def timer_kill_def kill_def
        quit_answered_def quit_refused_def sample_child_def)

end
